theory Spec2Isabelle
  imports Main
begin

section \<open>Strings\<close>

text \<open>
  The program is TypeScript; its strings are modelled as \<^typ>\<open>string\<close>. The string
  methods the migration code calls are written out below with the names they have in the
  source language.
\<close>

text \<open>\<^verbatim>\<open>s.startsWith(p)\<close>\<close>

fun startsWith :: "string \<Rightarrow> string \<Rightarrow> bool" where
  "startsWith s [] = True"
| "startsWith [] (p # ps) = False"
| "startsWith (c # cs) (p # ps) = (c = p \<and> startsWith cs ps)"

text \<open>\<^verbatim>\<open>s.includes(p)\<close>: \<open>p\<close> occurs in \<open>s\<close> as a contiguous substring.\<close>

fun str_includes :: "string \<Rightarrow> string \<Rightarrow> bool" where
  "str_includes [] p = startsWith [] p"
| "str_includes (c # cs) p = (startsWith (c # cs) p \<or> str_includes cs p)"

section \<open>Path normalizer\<close>

text \<open>
  \<^verbatim>\<open>path.replace(/\/+/g, '/')\<close>: scanning from the left, every maximal run of slashes
  (the greedy match of \<^verbatim>\<open>\/+\<close>) is replaced by one slash; every other character is kept.
\<close>

function replace_slash_runs :: "string \<Rightarrow> string" where
  "replace_slash_runs [] = []"
| "replace_slash_runs (c # cs) =
     (if c = CHR ''/''
      then CHR ''/'' # replace_slash_runs (dropWhile (\<lambda>d. d = CHR ''/'') cs)
      else c # replace_slash_runs cs)"
  by pat_completeness auto
termination
  by (relation "measure length") (auto simp: le_imp_less_Suc length_dropWhile_le)

text \<open>
  \<^verbatim>\<open>normalizePath\<close> of \<^verbatim>\<open>MigrationService\<close> (the route handler and the server action carry
  the same function): collapse the slash runs, then drop one leading slash
  (\<^verbatim>\<open>substring(1)\<close>) if there is one.
\<close>

definition normalizePath :: "string \<Rightarrow> string" where
  "normalizePath path =
     (let normalized = replace_slash_runs path
      in if startsWith normalized ''/'' then drop 1 normalized else normalized)"

text \<open>
  The same collapsing in the words of the specification: of two adjacent slashes the first
  is dropped, nothing else changes. It is compared with the regular-expression reading above.
\<close>

fun collapse_runs_spec :: "string \<Rightarrow> string" where
  "collapse_runs_spec (c # d # cs) =
     (if c = CHR ''/'' \<and> d = CHR ''/'' then collapse_runs_spec (d # cs)
      else c # collapse_runs_spec (d # cs))"
| "collapse_runs_spec cs = cs"

text \<open>A string has a slash run when two slashes are adjacent somewhere in it.\<close>

fun has_slash_run :: "string \<Rightarrow> bool" where
  "has_slash_run (c # d # cs) = ((c = CHR ''/'' \<and> d = CHR ''/'') \<or> has_slash_run (d # cs))"
| "has_slash_run cs = False"

section \<open>Skip-policy filter\<close>

definition skipPatterns :: "string list" where
  "skipPatterns =
     [''.emptyFolderPlaceholder'', ''test-'', ''mock-'', ''example'', ''/example'',
      ''/examples/'', ''sample-'', ''/sample/'', ''/test/'', ''/testing/'']"

text \<open>\<^verbatim>\<open>skipPatterns.some(pattern => path.includes(pattern))\<close>\<close>

definition shouldSkipPath :: "string \<Rightarrow> bool" where
  "shouldSkipPath path = list_ex (\<lambda>pattern. str_includes path pattern) skipPatterns"

section \<open>Content types\<close>

text \<open>
  \<^verbatim>\<open>s.split(sep)\<close> for a one-character separator. The result is never empty, so the
  second case of the inner distinction does not arise.
\<close>

fun split_on :: "char \<Rightarrow> string \<Rightarrow> string list" where
  "split_on sep [] = [[]]"
| "split_on sep (c # cs) =
     (if c = sep then [] # split_on sep cs
      else (case split_on sep cs of
              seg # rest \<Rightarrow> (c # seg) # rest
            | [] \<Rightarrow> [[c]]))"

text \<open>
  \<^verbatim>\<open>s.toLowerCase()\<close> on the letters \<open>A\<close> to \<open>Z\<close>; every other character is kept. (No
  key of the tables below contains a character that only a non-ASCII letter lowers to.)
\<close>

definition toLowerCase :: "string \<Rightarrow> string" where
  "toLowerCase s =
     map (\<lambda>c. case map_of (zip ''ABCDEFGHIJKLMNOPQRSTUVWXYZ'' ''abcdefghijklmnopqrstuvwxyz'') c of
                 Some l \<Rightarrow> l | None \<Rightarrow> c) s"

text \<open>
  The values a property read can produce here: a string, a built-in function, or a
  built-in object.
\<close>

datatype js_value = JString string | JFunction string | JObject string

text \<open>
  \<^verbatim>\<open>contentTypes\<close> is an object literal, so \<^verbatim>\<open>contentTypes[extension]\<close> reads an own
  property if there is one and otherwise a property inherited from \<^verbatim>\<open>Object.prototype\<close>.
  These are the inherited properties.
\<close>

definition object_prototype :: "(string \<times> js_value) list" where
  "object_prototype =
     [(''constructor'', JFunction ''Object''),
      (''hasOwnProperty'', JFunction ''hasOwnProperty''),
      (''isPrototypeOf'', JFunction ''isPrototypeOf''),
      (''propertyIsEnumerable'', JFunction ''propertyIsEnumerable''),
      (''toLocaleString'', JFunction ''toLocaleString''),
      (''toString'', JFunction ''toString''),
      (''valueOf'', JFunction ''valueOf''),
      (''__defineGetter__'', JFunction ''__defineGetter__''),
      (''__defineSetter__'', JFunction ''__defineSetter__''),
      (''__lookupGetter__'', JFunction ''__lookupGetter__''),
      (''__lookupSetter__'', JFunction ''__lookupSetter__''),
      (''__proto__'', JObject ''Object.prototype'')]"

definition get_property :: "(string \<times> string) list \<Rightarrow> string \<Rightarrow> js_value option" where
  "get_property own k =
     (case map_of own k of
        Some v \<Rightarrow> Some (JString v)
      | None \<Rightarrow> map_of object_prototype k)"

fun truthy :: "js_value \<Rightarrow> bool" where
  "truthy (JString s) = (s \<noteq> [])"
| "truthy (JFunction f) = True"
| "truthy (JObject ob) = True"

text \<open>The table of the route handler and of the server action.\<close>

definition contentTypes :: "(string \<times> string) list" where
  "contentTypes =
     [(''jpg'', ''image/jpeg''),
      (''jpeg'', ''image/jpeg''),
      (''png'', ''image/png''),
      (''gif'', ''image/gif''),
      (''webp'', ''image/webp''),
      (''svg'', ''image/svg+xml''),
      (''pdf'', ''application/pdf''),
      (''doc'', ''application/msword''),
      (''docx'', ''application/vnd.openxmlformats-officedocument.wordprocessingml.document''),
      (''xls'', ''application/vnd.ms-excel''),
      (''xlsx'', ''application/vnd.openxmlformats-officedocument.spreadsheetml.sheet''),
      (''mp3'', ''audio/mpeg''),
      (''mp4'', ''video/mp4''),
      (''webm'', ''video/webm''),
      (''json'', ''application/json''),
      (''html'', ''text/html''),
      (''css'', ''text/css''),
      (''js'', ''application/javascript''),
      (''txt'', ''text/plain'')]"

text \<open>The table of \<^verbatim>\<open>MigrationService.getContentType\<close>: the same with two more entries.\<close>

definition contentTypes_service :: "(string \<times> string) list" where
  "contentTypes_service =
     take 11 contentTypes @
     [(''ppt'', ''application/vnd.ms-powerpoint''),
      (''pptx'', ''application/vnd.openxmlformats-officedocument.presentationml.presentation'')] @
     drop 11 contentTypes"

text \<open>
  \<^verbatim>\<open>extension && contentTypes[extension] ? contentTypes[extension] : 'application/octet-stream'\<close>
  with \<^verbatim>\<open>extension = path.split('.').pop()?.toLowerCase()\<close>.
\<close>

definition content_type_of :: "(string \<times> string) list \<Rightarrow> string \<Rightarrow> js_value" where
  "content_type_of table path =
     (let extension = toLowerCase (last (split_on CHR ''.'' path))
      in if extension \<noteq> []
         then (case get_property table extension of
                 Some v \<Rightarrow> if truthy v then v else JString ''application/octet-stream''
               | None \<Rightarrow> JString ''application/octet-stream'')
         else JString ''application/octet-stream'')"

definition getContentType :: "string \<Rightarrow> js_value" where
  "getContentType path = content_type_of contentTypes path"

definition MigrationService_getContentType :: "string \<Rightarrow> js_value" where
  "MigrationService_getContentType path = content_type_of contentTypes_service path"

section \<open>The migration service\<close>

subsection \<open>Thrown values and configuration\<close>

text \<open>
  A value that a call throws (or a promise rejects with): an instance of \<^verbatim>\<open>Error\<close> with its
  \<^verbatim>\<open>name\<close> and \<^verbatim>\<open>message\<close>, or some other value.
\<close>

datatype thrown = ErrorInstance (err_name: string) (err_message: string) | NonError

text \<open>\<^verbatim>\<open>error instanceof Error ? error.message : fallback\<close>\<close>

fun message_or :: "string \<Rightarrow> thrown \<Rightarrow> string" where
  "message_or fallback (ErrorInstance n m) = m"
| "message_or fallback NonError = fallback"

text \<open>\<^verbatim>\<open>new Error(message)\<close>\<close>

definition new_Error :: "string \<Rightarrow> thrown" where
  "new_Error message = ErrorInstance ''Error'' message"

definition not_initialized_error :: thrown where
  "not_initialized_error =
     new_Error ''Cloudflare R2 client is not initialized. Please connect to Cloudflare R2 first.''"

record SupabaseConfig =
  supabaseUrl :: string
  supabaseKey :: string
  sb_bucketName :: string

text \<open>
  The service receives a \<^verbatim>\<open>Partial<CloudflareConfig>\<close>; an absent field is the empty string
  here (both are falsy).
\<close>

record CloudflareConfig =
  accountId :: string
  accessKeyId :: string
  secretAccessKey :: string
  cf_bucketName :: string
  customDomain :: string

record MigrationFile =
  mf_path :: string
  mf_size :: nat
  mf_lastModified :: "string option"
  mf_selected :: "bool option"

record MigrationProgress =
  mp_total :: nat
  mp_completed :: nat
  mp_failed :: nat
  mp_inProgress :: bool
  mp_errors :: "string \<rightharpoonup> string"

text \<open>
  The fields of a \<^verbatim>\<open>MigrationService\<close> other than its progress record, which the
  functions below take and return explicitly. \<open>r2Client\<close> tells whether the client of the
  destination is initialized.
\<close>

record MigrationService =
  supabaseConfig :: SupabaseConfig
  cloudflareConfig :: CloudflareConfig
  r2Client :: bool

text \<open>
  \<^verbatim>\<open>SupabaseConfigSchema.parse\<close>; the test of \<^verbatim>\<open>z.string().url()\<close> is the parameter
  \<open>url_ok\<close>.
\<close>

definition SupabaseConfigSchema_parse :: "(string \<Rightarrow> bool) \<Rightarrow> SupabaseConfig \<Rightarrow> thrown + SupabaseConfig" where
  "SupabaseConfigSchema_parse url_ok config =
     (if \<not> url_ok (supabaseUrl config) then Inl (ErrorInstance ''ZodError'' ''Invalid Supabase URL'')
      else if supabaseKey config = [] then
        Inl (ErrorInstance ''ZodError'' ''Supabase service role key is required'')
      else if sb_bucketName config = [] then Inl (ErrorInstance ''ZodError'' ''Bucket name is required'')
      else Inr config)"

text \<open>
  The constructor: \<^verbatim>\<open>initSupabaseClient\<close> validates the source configuration and throws
  when it is invalid; the destination client is initialized only when the four required
  fields are present.
\<close>

definition new_MigrationService ::
  "(string \<Rightarrow> bool) \<Rightarrow> SupabaseConfig \<Rightarrow> CloudflareConfig \<Rightarrow> thrown + MigrationService" where
  "new_MigrationService url_ok sconfig cconfig =
     (case SupabaseConfigSchema_parse url_ok sconfig of
        Inl e \<Rightarrow> Inl e
      | Inr valid \<Rightarrow>
          Inr \<lparr>supabaseConfig = sconfig, cloudflareConfig = cconfig,
               r2Client = (accountId cconfig \<noteq> [] \<and> accessKeyId cconfig \<noteq> [] \<and>
                           secretAccessKey cconfig \<noteq> [] \<and> cf_bucketName cconfig \<noteq> [])\<rparr>)"

subsection \<open>The outside world\<close>

text \<open>An entry of a storage listing; an entry without an \<^verbatim>\<open>id\<close> is a folder.\<close>

record storage_item =
  item_name :: string
  item_id :: "string option"
  item_size :: "nat option"
  item_lastModified :: "string option"

text \<open>
  What \<^verbatim>\<open>supabase.storage.from(bucket).list(path)\<close> gives: an error with its message, neither
  error nor data, the entries, or a thrown value.
\<close>

datatype list_outcome =
    ListError string
  | ListNoData
  | ListData "storage_item list"
  | ListThrows thrown

text \<open>The parsed body of a response of \<^verbatim>\<open>/api/migrate-to-r2\<close>, as its readers use it.\<close>

record api_result =
  res_success :: bool
  res_url :: string
  res_error :: string

text \<open>
  What \<^verbatim>\<open>fetch('/api/migrate-to-r2', ...)\<close> gives: a rejection; a response that is not ok,
  with its status text and the outcome of reading its text; or an ok response with the
  outcome of parsing its body.
\<close>

datatype fetch_outcome =
    FetchRejects thrown
  | ResponseNotOk string "thrown + string"
  | ResponseOk "thrown + api_result"

text \<open>
  The collaborators of the service, each a function of the key it is asked about (the same
  question gets the same answer throughout a run): \<open>head_object\<close> is \<open>None\<close> when the
  \<^verbatim>\<open>HeadObjectCommand\<close> resolves, and the thrown value otherwise.
\<close>

record world =
  storage_list :: "string \<Rightarrow> list_outcome"
  head_object :: "string \<Rightarrow> thrown option"
  api_migrate :: "string \<Rightarrow> fetch_outcome"

text \<open>The requests the service sends, in the order it sends them.\<close>

datatype io_call = StorageList string | HeadObject string | ApiMigrate string

subsection \<open>Existence check\<close>

text \<open>
  The \<^verbatim>\<open>catch\<close> block of \<^verbatim>\<open>fileExistsInR2\<close> throws the error again under this condition
  and returns \<^verbatim>\<open>false\<close> otherwise:
  \<^verbatim>\<open>error instanceof Error && error.message.includes("not initialized")\<close>
\<close>

fun is_not_initialized :: "thrown \<Rightarrow> bool" where
  "is_not_initialized (ErrorInstance n m) = str_includes m ''not initialized''"
| "is_not_initialized NonError = False"

definition fileExistsInR2_catch :: "thrown \<Rightarrow> thrown + bool" where
  "fileExistsInR2_catch e = (if is_not_initialized e then Inl e else Inr False)"

definition fileExistsInR2 ::
  "MigrationService \<Rightarrow> world \<Rightarrow> string \<Rightarrow> (thrown + bool) \<times> io_call list" where
  "fileExistsInR2 svc w path =
     (if \<not> r2Client svc then (fileExistsInR2_catch not_initialized_error, [])
      else
        let normalizedPath = normalizePath path
        in (case head_object w normalizedPath of
              None \<Rightarrow> Inr True
            | Some e \<Rightarrow> fileExistsInR2_catch e,
            [HeadObject normalizedPath]))"

subsection \<open>Upload through the API endpoint\<close>

text \<open>
  The \<^verbatim>\<open>catch (fetchError)\<close> block of \<^verbatim>\<open>uploadToR2\<close>: an abort becomes the time-out
  error, everything else is thrown again.
\<close>

fun uploadToR2_catch :: "string \<Rightarrow> thrown \<Rightarrow> thrown" where
  "uploadToR2_catch normalizedPath (ErrorInstance n m) =
     (if n = ''AbortError''
      then new_Error (''Request timed out after 30 seconds for file: '' @ normalizedPath)
      else ErrorInstance n m)"
| "uploadToR2_catch normalizedPath NonError = NonError"

text \<open>
  \<^verbatim>\<open>uploadToR2\<close>: \<open>None\<close> when it returns, the thrown value otherwise. In the branch of a
  response that is not ok, the error thrown inside the inner \<^verbatim>\<open>try\<close> is caught by the
  \<^verbatim>\<open>catch\<close> next to it, which throws the error with the raw text. (The payload is made
  of the strings of the two configurations and the path; its serialization does not fail.)
\<close>

definition uploadToR2 ::
  "MigrationService \<Rightarrow> world \<Rightarrow> string \<Rightarrow> thrown option \<times> io_call list" where
  "uploadToR2 svc w path =
     (if \<not> r2Client svc then (Some not_initialized_error, [])
      else
        let normalizedPath = normalizePath path
        in (map_option (uploadToR2_catch normalizedPath)
              (case api_migrate w normalizedPath of
                 FetchRejects e \<Rightarrow> Some e
               | ResponseNotOk statusText body \<Rightarrow>
                   (case body of
                      Inl e \<Rightarrow> Some e
                    | Inr errorText \<Rightarrow>
                        Some (new_Error (''Failed to upload file to R2: '' @
                                (if errorText \<noteq> [] then errorText else statusText))))
               | ResponseOk body \<Rightarrow>
                   (case body of
                      Inl e \<Rightarrow> Some e
                    | Inr result \<Rightarrow>
                        if \<not> res_success result
                        then Some (new_Error (if res_error result \<noteq> [] then res_error result
                                              else ''Failed to upload file to R2''))
                        else None)),
            [ApiMigrate normalizedPath]))"

subsection \<open>Migrating one file\<close>

text \<open>\<^verbatim>\<open>this.progress.completed++\<close>\<close>

definition count_completed :: "MigrationProgress \<Rightarrow> MigrationProgress" where
  "count_completed p = p\<lparr>mp_completed := mp_completed p + 1\<rparr>"

text \<open>The \<^verbatim>\<open>catch\<close> block of \<^verbatim>\<open>migrateFile\<close>.\<close>

definition migrateFile_catch :: "MigrationProgress \<Rightarrow> string \<Rightarrow> thrown \<Rightarrow> MigrationProgress" where
  "migrateFile_catch p path e =
     p\<lparr>mp_failed := mp_failed p + 1,
       mp_errors := (mp_errors p)(path \<mapsto> message_or ''Unknown error'' e)\<rparr>"

definition migrateFile ::
  "MigrationService \<Rightarrow> world \<Rightarrow> MigrationProgress \<Rightarrow> string \<Rightarrow> MigrationProgress \<times> io_call list" where
  "migrateFile svc w p path =
     (if shouldSkipPath path then (count_completed p, [])
      else
        let normalizedPath = normalizePath path;
            probe = fileExistsInR2 svc w normalizedPath
        in (case fst probe of
              Inl e \<Rightarrow> (migrateFile_catch p path e, snd probe)
            | Inr exists \<Rightarrow>
                if exists then (count_completed p, snd probe)
                else
                  let upload = uploadToR2 svc w normalizedPath
                  in (case fst upload of
                        Some e \<Rightarrow> (migrateFile_catch p path e, snd probe @ snd upload)
                      | None \<Rightarrow> (count_completed p, snd probe @ snd upload))))"

subsection \<open>Migrating the selected files\<close>

text \<open>\<^verbatim>\<open>xs.slice(i, j)\<close> for \<open>0 \<le> i \<le> j\<close>.\<close>

definition slice :: "nat \<Rightarrow> nat \<Rightarrow> 'a list \<Rightarrow> 'a list" where
  "slice i j xs = take (j - i) (drop i xs)"

definition batchSize :: nat where
  "batchSize = 5"

text \<open>
  \<^verbatim>\<open>await Promise.all(batch.map(file => this.migrateFile(file.path)))\<close>, the files of the
  batch resolving in the order of the list. (The relation \<open>run_step\<close> below lets them
  resolve in any order.)
\<close>

definition migrateBatch ::
  "MigrationService \<Rightarrow> world \<Rightarrow> MigrationProgress \<Rightarrow> MigrationFile list \<Rightarrow> MigrationProgress" where
  "migrateBatch svc w p batch = foldl (\<lambda>q file. fst (migrateFile svc w q (mf_path file))) p batch"

text \<open>The \<^verbatim>\<open>for\<close> loop of \<^verbatim>\<open>migrateFiles\<close>.\<close>

function migrateLoop ::
  "MigrationService \<Rightarrow> world \<Rightarrow> MigrationFile list \<Rightarrow> nat \<Rightarrow> MigrationProgress \<Rightarrow> MigrationProgress" where
  "migrateLoop svc w files i p =
     (if i < length files
      then migrateLoop svc w files (i + batchSize)
             (migrateBatch svc w p (slice i (i + batchSize) files))
      else p)"
  by pat_completeness auto
termination
  by (relation "measure (\<lambda>(svc, w, files, i, p). length files - i)") (auto simp: batchSize_def)

declare migrateLoop.simps [simp del]

text \<open>The progress record that \<^verbatim>\<open>migrateFiles\<close> starts from.\<close>

definition reset_progress :: "MigrationFile list \<Rightarrow> MigrationProgress" where
  "reset_progress files =
     \<lparr>mp_total = length files, mp_completed = 0, mp_failed = 0, mp_inProgress = True,
      mp_errors = Map.empty\<rparr>"

text \<open>
  \<^verbatim>\<open>migrateFiles\<close>, from the progress record \<open>p\<close> of the service: it throws and leaves the
  record as it is, or it returns the final record, which is also the record of the service
  from then on.
\<close>

definition migrateFiles ::
  "MigrationService \<Rightarrow> world \<Rightarrow> MigrationProgress \<Rightarrow> MigrationFile list \<Rightarrow> thrown + MigrationProgress" where
  "migrateFiles svc w p files =
     (if mp_inProgress p then Inl (new_Error ''Migration already in progress'')
      else if \<not> r2Client svc then Inl not_initialized_error
      else Inr ((migrateLoop svc w files 0 (reset_progress files))\<lparr>mp_inProgress := False\<rparr>))"

text \<open>
  The run as a transition system, for the moments in between. A state holds the progress
  record, the paths of the current batch that have not resolved yet, and the loop index.
  A batch is admitted when the previous one has resolved completely; any file in flight
  may resolve next; when nothing is in flight and the loop is over, the \<^verbatim>\<open>finally\<close> block
  clears \<open>inProgress\<close>.
\<close>

record run_state =
  rs_progress :: MigrationProgress
  rs_inflight :: "string list"
  rs_index :: nat

definition run_start :: "MigrationFile list \<Rightarrow> run_state" where
  "run_start files = \<lparr>rs_progress = reset_progress files, rs_inflight = [], rs_index = 0\<rparr>"

inductive run_step ::
  "MigrationService \<Rightarrow> world \<Rightarrow> MigrationFile list \<Rightarrow> run_state \<Rightarrow> run_state \<Rightarrow> bool"
  for svc :: MigrationService and w :: world and files :: "MigrationFile list" where
  admit:
    "rs_inflight s = [] \<Longrightarrow> rs_index s < length files \<Longrightarrow> mp_inProgress (rs_progress s) \<Longrightarrow>
     run_step svc w files s
       (s\<lparr>rs_inflight := map mf_path (slice (rs_index s) (rs_index s + batchSize) files),
          rs_index := rs_index s + batchSize\<rparr>)"
| resolve:
    "k < length (rs_inflight s) \<Longrightarrow>
     run_step svc w files s
       (s\<lparr>rs_progress := fst (migrateFile svc w (rs_progress s) (rs_inflight s ! k)),
          rs_inflight := take k (rs_inflight s) @ drop (Suc k) (rs_inflight s)\<rparr>)"
| finish:
    "rs_inflight s = [] \<Longrightarrow> \<not> rs_index s < length files \<Longrightarrow> mp_inProgress (rs_progress s) \<Longrightarrow>
     run_step svc w files s (s\<lparr>rs_progress := (rs_progress s)\<lparr>mp_inProgress := False\<rparr>\<rparr>)"

text \<open>
  What every state of a run satisfies: the counters, the files in flight and the files
  not yet admitted add up to the number of files, and once \<open>inProgress\<close> is cleared nothing
  is in flight or waiting.
\<close>

definition run_inv :: "MigrationFile list \<Rightarrow> run_state \<Rightarrow> bool" where
  "run_inv files s \<longleftrightarrow>
     mp_total (rs_progress s) = length files
     \<and> mp_completed (rs_progress s) + mp_failed (rs_progress s) + length (rs_inflight s)
         + (length files - rs_index s) = length files
     \<and> (\<not> mp_inProgress (rs_progress s) \<longrightarrow> rs_inflight s = [] \<and> \<not> rs_index s < length files)"

text \<open>A quantity that every transition decreases, so that every run ends.\<close>

definition run_measure :: "MigrationFile list \<Rightarrow> run_state \<Rightarrow> nat" where
  "run_measure files s =
     (if mp_inProgress (rs_progress s) then 1 else 0) + length (rs_inflight s)
       + (batchSize + 1) * (length files - rs_index s)"

text \<open>
  The contract of the existence check in the words of the specification: a failure that
  reports "not found" (the \<^verbatim>\<open>NotFound\<close> error of the metadata probe) gives \<^verbatim>\<open>false\<close>, any
  other failure is an error, and so is a missing client.
\<close>

fun reports_not_found :: "thrown \<Rightarrow> bool" where
  "reports_not_found (ErrorInstance n m) = (n = ''NotFound'')"
| "reports_not_found NonError = False"

definition existsAtDestination_spec :: "MigrationService \<Rightarrow> world \<Rightarrow> string \<Rightarrow> thrown + bool" where
  "existsAtDestination_spec svc w key =
     (if \<not> r2Client svc then Inl not_initialized_error
      else case head_object w (normalizePath key) of
             None \<Rightarrow> Inr True
           | Some e \<Rightarrow> if reports_not_found e then Inr False else Inl e)"

subsection \<open>Listing the source\<close>

text \<open>\<^verbatim>\<open>!item.id\<close>: the entry is a folder.\<close>

definition is_folder :: "storage_item \<Rightarrow> bool" where
  "is_folder item = (case item_id item of None \<Rightarrow> True | Some i \<Rightarrow> i = [])"

text \<open>\<^verbatim>\<open>normalizedPath ? `${normalizedPath}/${item.name}` : item.name\<close>\<close>

definition join_path :: "string \<Rightarrow> string \<Rightarrow> string" where
  "join_path normalizedPath name =
     (if normalizedPath \<noteq> [] then normalizedPath @ ''/'' @ name else name)"

text \<open>
  The outcome of a listing: the thrown value or the files, and the requests sent on the
  way.
\<close>

type_synonym listing = "(thrown + MigrationFile list) \<times> io_call list"

text \<open>
  The \<^verbatim>\<open>for\<close> loop of \<^verbatim>\<open>listFiles\<close> over the entries of one folder; \<open>recurse\<close> is the
  recursive call for a sub-folder, \<open>files\<close> the array built so far.
\<close>

fun listFiles_items ::
  "(string \<Rightarrow> listing option) \<Rightarrow> string \<Rightarrow> storage_item list \<Rightarrow> MigrationFile list \<Rightarrow>
     io_call list \<Rightarrow> listing option" where
  "listFiles_items recurse normalizedPath [] files calls = Some (Inr files, calls)"
| "listFiles_items recurse normalizedPath (item # items) files calls =
     (let itemPath = join_path normalizedPath (item_name item)
      in if shouldSkipPath itemPath
         then listFiles_items recurse normalizedPath items files calls
         else if is_folder item
         then (case recurse itemPath of
                 None \<Rightarrow> None
               | Some (Inl e, sent) \<Rightarrow> Some (Inl e, calls @ sent)
               | Some (Inr subFiles, sent) \<Rightarrow>
                   listFiles_items recurse normalizedPath items (files @ subFiles) (calls @ sent))
         else listFiles_items recurse normalizedPath items
                (files @ [\<lparr>mf_path = itemPath,
                            mf_size = (case item_size item of None \<Rightarrow> 0 | Some n \<Rightarrow> n),
                            mf_lastModified = item_lastModified item,
                            mf_selected = Some True\<rparr>])
                calls)"

text \<open>
  \<^verbatim>\<open>listFiles\<close>. The recursion follows the folders of the source, whose depth the code does
  not bound: the first argument bounds the depth of the recursion, and \<open>None\<close> means that
  the bound was reached.
\<close>

primrec listFiles :: "nat \<Rightarrow> MigrationService \<Rightarrow> world \<Rightarrow> string \<Rightarrow> listing option" where
  "listFiles 0 svc w path = None"
| "listFiles (Suc fuel) svc w path =
     (if sb_bucketName (supabaseConfig svc) = []
      then Some (Inl (new_Error ''Bucket name is required''), [])
      else
        let normalizedPath = normalizePath path
        in if shouldSkipPath normalizedPath then Some (Inr [], [])
           else (case storage_list w normalizedPath of
                   ListError m \<Rightarrow>
                     Some (Inl (if str_includes m ''not found'' \<or> str_includes m ''does not exist''
                                then new_Error (''Bucket '' @ [CHR 0x22] @
                                       sb_bucketName (supabaseConfig svc) @ [CHR 0x22] @
                                       '' does not exist or is not accessible'')
                                else ErrorInstance ''StorageError'' m),
                           [StorageList normalizedPath])
                 | ListNoData \<Rightarrow>
                     Some (Inl (new_Error (''No data returned from bucket '' @ [CHR 0x22] @
                                  sb_bucketName (supabaseConfig svc) @ [CHR 0x22])),
                           [StorageList normalizedPath])
                 | ListThrows e \<Rightarrow> Some (Inl e, [StorageList normalizedPath])
                 | ListData entries \<Rightarrow>
                     listFiles_items (listFiles fuel svc w) normalizedPath entries []
                       [StorageList normalizedPath]))"

subsection \<open>A concrete service and world\<close>

text \<open>The test of \<^verbatim>\<open>z.string().url()\<close> used in the examples.\<close>

definition example_is_url :: "string \<Rightarrow> bool" where
  "example_is_url u = (startsWith u ''https://'' \<or> startsWith u ''http://'')"

definition example_service :: MigrationService where
  "example_service =
     \<lparr>supabaseConfig =
        \<lparr>supabaseUrl = ''https://proj.supabase.co'', supabaseKey = ''key'',
         sb_bucketName = ''mybucket''\<rparr>,
      cloudflareConfig =
        \<lparr>accountId = ''acct'', accessKeyId = ''id'', secretAccessKey = ''secret'',
         cf_bucketName = ''dest'', customDomain = []\<rparr>,
      r2Client = True\<rparr>"

definition example_success :: "string \<Rightarrow> api_result" where
  "example_success k =
     \<lparr>res_success = True, res_url = ''https://dest.acct.r2.cloudflarestorage.com/'' @ k,
      res_error = []\<rparr>"

definition example_failure :: api_result where
  "example_failure =
     \<lparr>res_success = False, res_url = [], res_error = ''Failed to upload to R2: boom''\<rparr>"

definition example_file :: "string \<Rightarrow> nat \<Rightarrow> storage_item" where
  "example_file name bytes =
     \<lparr>item_name = name, item_id = Some ''id'', item_size = Some bytes,
      item_lastModified = None\<rparr>"

definition example_folder :: "string \<Rightarrow> storage_item" where
  "example_folder name =
     \<lparr>item_name = name, item_id = None, item_size = None, item_lastModified = None\<rparr>"

text \<open>
  The source holds \<open>a.jpg\<close>, \<open>c.pdf\<close>, \<open>test-1.png\<close> and \<open>images/b.png\<close>; the
  destination holds \<open>a.jpg\<close> already and refuses \<open>c.pdf\<close>.
\<close>

definition example_world :: world where
  "example_world =
     \<lparr>storage_list = (\<lambda>p.
        if p = [] then ListData [example_file ''a.jpg'' 10, example_folder ''images'',
                                  example_file ''test-1.png'' 5, example_file ''c.pdf'' 30]
        else if p = ''images'' then ListData [example_file ''b.png'' 20]
        else ListError ''Object not found''),
      head_object = (\<lambda>k.
        if k = ''a.jpg'' then None else Some (ErrorInstance ''NotFound'' ''UnknownError'')),
      api_migrate = (\<lambda>k.
        if k = ''c.pdf'' then ResponseOk (Inr example_failure)
        else ResponseOk (Inr (example_success k)))\<rparr>"

text \<open>A destination that answers every probe with an authorization failure.\<close>

definition denying_world :: world where
  "denying_world =
     example_world\<lparr>head_object := (\<lambda>k. Some (ErrorInstance ''AccessDenied'' ''Access Denied''))\<rparr>"

text \<open>A destination whose client fails with a message of its own about initialization.\<close>

definition uninitialized_world :: world where
  "uninitialized_world =
     example_world\<lparr>head_object := (\<lambda>k. Some (new_Error ''Credentials not initialized''))\<rparr>"

definition to_file :: "string \<Rightarrow> MigrationFile" where
  "to_file p = \<lparr>mf_path = p, mf_size = 0, mf_lastModified = None, mf_selected = Some True\<rparr>"

definition example_files :: "MigrationFile list" where
  "example_files = map to_file [''a.jpg'', ''images/b.png'', ''c.pdf'']"

definition idle_progress :: MigrationProgress where
  "idle_progress =
     \<lparr>mp_total = 0, mp_completed = 0, mp_failed = 0, mp_inProgress = False,
      mp_errors = Map.empty\<rparr>"

text \<open>Two states of the run over the example files: the first batch admitted, and then the
  third file resolved (its upload fails).\<close>

definition example_admitted :: run_state where
  "example_admitted =
     \<lparr>rs_progress = reset_progress example_files,
      rs_inflight = [''a.jpg'', ''images/b.png'', ''c.pdf''], rs_index = 5\<rparr>"

definition example_resolved :: run_state where
  "example_resolved =
     \<lparr>rs_progress =
        \<lparr>mp_total = 3, mp_completed = 0, mp_failed = 1, mp_inProgress = True,
         mp_errors = [''c.pdf'' \<mapsto> ''Failed to upload to R2: boom'']\<rparr>,
      rs_inflight = [''a.jpg'', ''images/b.png''], rs_index = 5\<rparr>"

section \<open>The transfer: route handler and server action\<close>

text \<open>
  \<^verbatim>\<open>CloudflareConfigSchema.parse\<close>. (For both schemas the message of the thrown error stands
  for the serialized list of issues.)
\<close>

definition CloudflareConfigSchema_parse :: "CloudflareConfig \<Rightarrow> thrown + CloudflareConfig" where
  "CloudflareConfigSchema_parse config =
     (if accountId config = [] then Inl (ErrorInstance ''ZodError'' ''Account ID is required'')
      else if accessKeyId config = [] then
        Inl (ErrorInstance ''ZodError'' ''Access Key ID is required'')
      else if secretAccessKey config = [] then
        Inl (ErrorInstance ''ZodError'' ''Secret Access Key is required'')
      else if cf_bucketName config = [] then
        Inl (ErrorInstance ''ZodError'' ''Bucket name is required'')
      else Inr config)"

text \<open>
  What \<^verbatim>\<open>supabase.storage.from(bucket).download(key)\<close> gives: an error with its message,
  neither error nor data, the body of the object, or a thrown value.
\<close>

datatype download_outcome =
    DownloadError string
  | DownloadNoData
  | DownloadData string
  | DownloadThrows thrown

text \<open>
  The collaborators of the transfer: the URL test of the schema, the source, and the
  answer of the destination to a \<^verbatim>\<open>PutObjectCommand\<close> for a bucket and key (\<open>None\<close> when it
  resolves, the thrown value otherwise).
\<close>

record server_world =
  is_url :: "string \<Rightarrow> bool"
  source_download :: "string \<Rightarrow> string \<Rightarrow> download_outcome"
  put_object :: "string \<Rightarrow> string \<Rightarrow> thrown option"

text \<open>
  The destination: for a bucket and a key, the body and the content type stored there. A
  put that resolves stores its object; a put that throws leaves the store as it was.
\<close>

type_synonym store = "string \<times> string \<rightharpoonup> string \<times> js_value"

datatype server_call = Download string string | PutObject string string js_value

datatype reply =
    ReplySuccess (reply_url: string) (reply_message: string)
  | ReplyFailure (reply_error: string)

text \<open>
  From the download to the end, the route handler and the server action are the same
  code; the handler adds a status to each reply. \<open>transfer_steps\<close> is that part, for
  the validated configurations and the normalized path.
\<close>

definition fileUrl :: "CloudflareConfig \<Rightarrow> string \<Rightarrow> string" where
  "fileUrl validCloudflareConfig normalizedFilePath =
     (if customDomain validCloudflareConfig \<noteq> []
      then ''https://'' @ customDomain validCloudflareConfig @ ''/'' @ normalizedFilePath
      else ''https://'' @ cf_bucketName validCloudflareConfig @ ''.'' @
           accountId validCloudflareConfig @ ''.r2.cloudflarestorage.com/'' @ normalizedFilePath)"

definition transfer_steps ::
  "server_world \<Rightarrow> store \<Rightarrow> SupabaseConfig \<Rightarrow> CloudflareConfig \<Rightarrow> string \<Rightarrow>
     (reply \<times> nat) \<times> store \<times> server_call list" where
  "transfer_steps w st validSupabaseConfig validCloudflareConfig normalizedFilePath =
     (let source = sb_bucketName validSupabaseConfig;
          dest = cf_bucketName validCloudflareConfig
      in case source_download w source normalizedFilePath of
           DownloadThrows e \<Rightarrow>
             ((ReplyFailure (message_or ''Unknown error occurred'' e), 500), st,
              [Download source normalizedFilePath])
         | DownloadError m \<Rightarrow>
             ((ReplyFailure (''Error downloading file: '' @ m), 404), st,
              [Download source normalizedFilePath])
         | DownloadNoData \<Rightarrow>
             ((ReplyFailure ''File could not be downloaded'', 404), st,
              [Download source normalizedFilePath])
         | DownloadData body \<Rightarrow>
             let contentType = getContentType normalizedFilePath
             in (case put_object w dest normalizedFilePath of
                   Some r2Error \<Rightarrow>
                     ((ReplyFailure (''Failed to upload to R2: '' @
                                       message_or ''Unknown R2 error'' r2Error), 500), st,
                      [Download source normalizedFilePath,
                       PutObject dest normalizedFilePath contentType])
                 | None \<Rightarrow>
                     ((ReplySuccess (fileUrl validCloudflareConfig normalizedFilePath)
                         (''Successfully migrated '' @ normalizedFilePath), 200),
                      st((dest, normalizedFilePath) \<mapsto> (body, contentType)),
                      [Download source normalizedFilePath,
                       PutObject dest normalizedFilePath contentType])))"

text \<open>The body of a request to \<^verbatim>\<open>/api/migrate-to-r2\<close>; a missing field is \<open>None\<close>.\<close>

record migrate_request =
  req_supabaseConfig :: "SupabaseConfig option"
  req_cloudflareConfig :: "CloudflareConfig option"
  req_filePath :: "string option"

text \<open>
  The route handler \<^verbatim>\<open>POST\<close>. Its argument is the outcome of \<^verbatim>\<open>request.json()\<close>; it returns
  the reply with its status, the store afterwards and the requests sent.
\<close>

definition POST ::
  "server_world \<Rightarrow> store \<Rightarrow> thrown + migrate_request \<Rightarrow>
     (reply \<times> nat) \<times> store \<times> server_call list" where
  "POST w st body =
     (case body of
        Inl e \<Rightarrow> ((ReplyFailure ''Server error processing your request'', 500), st, [])
      | Inr request \<Rightarrow>
          (case (req_supabaseConfig request, req_cloudflareConfig request, req_filePath request) of
             (Some sconfig, Some cconfig, Some filePath) \<Rightarrow>
               if filePath = [] then ((ReplyFailure ''Missing required parameters'', 400), st, [])
               else
                 let normalizedFilePath = normalizePath filePath
                 in (case SupabaseConfigSchema_parse (is_url w) sconfig of
                       Inl e \<Rightarrow>
                         ((ReplyFailure (message_or ''Unknown error occurred'' e), 500), st, [])
                     | Inr validSupabaseConfig \<Rightarrow>
                         (case CloudflareConfigSchema_parse cconfig of
                            Inl e \<Rightarrow>
                              ((ReplyFailure (message_or ''Unknown error occurred'' e), 500),
                               st, [])
                          | Inr validCloudflareConfig \<Rightarrow>
                              transfer_steps w st validSupabaseConfig validCloudflareConfig
                                normalizedFilePath))
           | _ \<Rightarrow> ((ReplyFailure ''Missing required parameters'', 400), st, [])))"

text \<open>
  The server action \<^verbatim>\<open>migrateFileToR2\<close>: the same steps after \<^verbatim>\<open>safeParse\<close>, without a
  status.
\<close>

definition migrateFileToR2 ::
  "server_world \<Rightarrow> store \<Rightarrow> SupabaseConfig \<Rightarrow> CloudflareConfig \<Rightarrow> string \<Rightarrow>
     reply \<times> store \<times> server_call list" where
  "migrateFileToR2 w st sconfig cconfig filePath =
     (let normalizedFilePath = normalizePath filePath
      in case SupabaseConfigSchema_parse (is_url w) sconfig of
           Inl e \<Rightarrow>
             (ReplyFailure (''Invalid Supabase config: '' @ message_or [] e), st, [])
         | Inr validSupabaseConfig \<Rightarrow>
             (case CloudflareConfigSchema_parse cconfig of
                Inl e \<Rightarrow>
                  (ReplyFailure (''Invalid Cloudflare config: '' @ message_or [] e), st, [])
              | Inr validCloudflareConfig \<Rightarrow>
                  (case transfer_steps w st validSupabaseConfig validCloudflareConfig
                          normalizedFilePath of
                     ((r, status), st', calls) \<Rightarrow> (r, st', calls))))"

text \<open>Whether a download outcome is a failure of the download.\<close>

fun download_failed :: "download_outcome \<Rightarrow> bool" where
  "download_failed (DownloadData body) = False"
| "download_failed _ = True"

fun is_put :: "server_call \<Rightarrow> bool" where
  "is_put (PutObject b k t) = True"
| "is_put (Download b k) = False"

fun is_failure :: "reply \<Rightarrow> bool" where
  "is_failure (ReplyFailure e) = True"
| "is_failure (ReplySuccess u m) = False"

text \<open>A source without \<open>c.pdf\<close>, and a destination that accepts everything.\<close>

definition example_server :: server_world where
  "example_server =
     \<lparr>is_url = example_is_url,
      source_download = (\<lambda>b k.
        if k = ''a.jpg'' then DownloadData ''0123456789''
        else if k = ''c.pdf'' then DownloadError ''Object not found''
        else DownloadNoData),
      put_object = (\<lambda>b k. None)\<rparr>"

text \<open>
  A download-side error message, in the words of the claim: the message names the download
  as what failed. The reading is a generous one: the word \<open>download\<close> occurs in it, in
  any case of letters.
\<close>

definition download_side_message :: "string \<Rightarrow> bool" where
  "download_side_message m = str_includes (toLowerCase m) ''download''"

text \<open>A source whose download throws.\<close>

definition throwing_server :: server_world where
  "throwing_server =
     \<lparr>is_url = example_is_url,
      source_download = (\<lambda>b k. DownloadThrows (ErrorInstance ''TypeError'' ''fetch failed'')),
      put_object = (\<lambda>b k. None)\<rparr>"

text \<open>The parsed body of a well-formed request.\<close>

definition request_body :: "SupabaseConfig \<Rightarrow> CloudflareConfig \<Rightarrow> string \<Rightarrow> thrown + migrate_request" where
  "request_body sconfig cconfig filePath =
     Inr \<lparr>req_supabaseConfig = Some sconfig, req_cloudflareConfig = Some cconfig,
          req_filePath = Some filePath\<rparr>"

definition example_request :: "string \<Rightarrow> thrown + migrate_request" where
  "example_request p =
     request_body (supabaseConfig example_service) (cloudflareConfig example_service) p"

section \<open>Table mode\<close>

subsection \<open>Extracting the key from a stored URL\<close>

text \<open>\<^verbatim>\<open>xs.join(sep)\<close>\<close>

fun join_with :: "string \<Rightarrow> string list \<Rightarrow> string" where
  "join_with sep [] = []"
| "join_with sep [x] = x"
| "join_with sep (x # y # ys) = x @ sep @ join_with sep (y # ys)"

text \<open>\<^verbatim>\<open>xs.findIndex(p)\<close>, with \<open>None\<close> for \<^verbatim>\<open>-1\<close>.\<close>

fun findIndex :: "('a \<Rightarrow> bool) \<Rightarrow> 'a list \<Rightarrow> nat option" where
  "findIndex p [] = None"
| "findIndex p (x # xs) = (if p x then Some 0 else map_option Suc (findIndex p xs))"

text \<open>
  The block of \<^verbatim>\<open>startMigration\<close> that computes \<^verbatim>\<open>filePath\<close> from the stored URL and the
  name of the source bucket. The parser of the platform is the parameter \<open>pathname_of\<close>:
  it gives \<^verbatim>\<open>new URL(s).pathname\<close>, or \<open>None\<close> when \<^verbatim>\<open>new URL(s)\<close> throws, which the
  \<^verbatim>\<open>catch\<close> of the block turns into the input itself.
\<close>

definition extractKey :: "(string \<Rightarrow> string option) \<Rightarrow> string \<Rightarrow> string \<Rightarrow> string" where
  "extractKey pathname_of imageUrl bucketName =
     (case pathname_of imageUrl of
        None \<Rightarrow> imageUrl
      | Some pathname \<Rightarrow>
          let pathParts = split_on CHR ''/'' pathname
          in (case findIndex (\<lambda>part. part = bucketName) pathParts of
                Some bucketIndex \<Rightarrow>
                  if bucketIndex < length pathParts - 1
                  then join_with ''/'' (drop (bucketIndex + 1) pathParts)
                  else last pathParts
              | None \<Rightarrow> last pathParts))"

text \<open>
  The extraction in the words of the specification: when some segment equals the bucket
  name, the key is the join of all segments after it; otherwise it is the last segment; an
  input that does not parse is the key.
\<close>

definition extractKey_spec :: "(string \<Rightarrow> string option) \<Rightarrow> string \<Rightarrow> string \<Rightarrow> string" where
  "extractKey_spec pathname_of imageUrl bucketName =
     (case pathname_of imageUrl of
        None \<Rightarrow> imageUrl
      | Some pathname \<Rightarrow>
          (case findIndex (\<lambda>part. part = bucketName) (split_on CHR ''/'' pathname) of
             Some bucketIndex \<Rightarrow>
               join_with ''/'' (drop (bucketIndex + 1) (split_on CHR ''/'' pathname))
           | None \<Rightarrow> last (split_on CHR ''/'' pathname)))"

text \<open>
  A parser for the examples: it reads URLs of the form \<open>http(s)://host/path\<close> whose path
  needs no encoding or normalization, and rejects a string without such a scheme and host.
\<close>

definition example_url_pathname :: "string \<Rightarrow> string option" where
  "example_url_pathname s =
     (let after_scheme =
            (if startsWith s ''https://'' then Some (drop 8 s)
             else if startsWith s ''http://'' then Some (drop 7 s)
             else None)
      in case after_scheme of
           None \<Rightarrow> None
         | Some r \<Rightarrow>
             if takeWhile (\<lambda>c. c \<noteq> CHR ''/'') r = [] then None
             else Some (if dropWhile (\<lambda>c. c \<noteq> CHR ''/'') r = [] then ''/''
                        else dropWhile (\<lambda>c. c \<noteq> CHR ''/'') r))"

subsection \<open>Migrating one row\<close>











subsection \<open>Concrete rows and worlds\<close>






section \<open>Facts about the string functions\<close>

lemma startsWith_iff: "startsWith s p \<longleftrightarrow> (\<exists>t. s = p @ t)"
  by (induction s p rule: startsWith.induct) auto

lemma str_includes_append: "str_includes (a @ p @ b) p"
proof (induction a)
  case Nil
  have "startsWith (p @ b) p" by (simp add: startsWith_iff)
  then show ?case by (cases "p @ b") auto
next
  case (Cons c a)
  then show ?case by simp
qed

lemma str_includes_iff: "str_includes s p \<longleftrightarrow> (\<exists>a b. s = a @ p @ b)"
proof
  show "str_includes s p \<Longrightarrow> \<exists>a b. s = a @ p @ b"
  proof (induction s)
    case Nil
    then show ?case by (auto simp: startsWith_iff)
  next
    case (Cons c cs)
    from Cons.prems consider "startsWith (c # cs) p" | "str_includes cs p" by auto
    then show ?case
    proof cases
      case 1
      then obtain t where "c # cs = [] @ p @ t" by (auto simp: startsWith_iff)
      then show ?thesis by blast
    next
      case 2
      then obtain a b where "cs = a @ p @ b" using Cons.IH by blast
      then have "c # cs = (c # a) @ p @ b" by simp
      then show ?thesis by blast
    qed
  qed
next
  show "\<exists>a b. s = a @ p @ b \<Longrightarrow> str_includes s p"
    using str_includes_append by blast
qed

section \<open>Facts about the path normalizer\<close>

lemma replace_slash_runs_head:
  "replace_slash_runs xs = c # ys \<Longrightarrow> \<exists>zs. xs = c # zs"
  by (cases xs) (auto split: if_splits)

lemma dropWhile_slash_head: "dropWhile (\<lambda>d. d = CHR ''/'') cs \<noteq> CHR ''/'' # zs"
  by (metis (mono_tags, lifting) hd_dropWhile list.sel(1) list.simps(3))

lemma has_slash_run_Cons: "has_slash_run (c # cs) \<Longrightarrow>
  (\<exists>zs. c = CHR ''/'' \<and> cs = CHR ''/'' # zs) \<or> has_slash_run cs"
  by (cases cs) auto

lemma has_slash_run_tail: "\<not> has_slash_run (c # cs) \<Longrightarrow> \<not> has_slash_run cs"
  by (cases cs; cases "tl cs") auto

lemma replace_slash_runs_no_run: "\<not> has_slash_run (replace_slash_runs xs)"
proof (induction xs rule: replace_slash_runs.induct)
  case 1
  show ?case by simp
next
  case (2 c cs)
  show ?case
  proof (cases "c = CHR ''/''")
    case True
    let ?r = "replace_slash_runs (dropWhile (\<lambda>d. d = CHR ''/'') cs)"
    have ih: "\<not> has_slash_run ?r" using 2(1) True by simp
    have hd: "\<And>zs. ?r \<noteq> CHR ''/'' # zs"
      using replace_slash_runs_head dropWhile_slash_head by blast
    have "\<not> has_slash_run (CHR ''/'' # ?r)"
      using ih hd has_slash_run_Cons by blast
    then show ?thesis using True by simp
  next
    case False
    have ih: "\<not> has_slash_run (replace_slash_runs cs)" using 2(2) False by simp
    have "\<not> has_slash_run (c # replace_slash_runs cs)"
      using ih False has_slash_run_Cons by blast
    then show ?thesis using False by simp
  qed
qed

lemma replace_slash_runs_fixpoint: "\<not> has_slash_run xs \<Longrightarrow> replace_slash_runs xs = xs"
proof (induction xs rule: replace_slash_runs.induct)
  case 1
  show ?case by simp
next
  case (2 c cs)
  have tail: "\<not> has_slash_run cs" using "2.prems" has_slash_run_tail by blast
  show ?case
  proof (cases "c = CHR ''/''")
    case True
    have "dropWhile (\<lambda>d. d = CHR ''/'') cs = cs"
      using "2.prems" True by (cases cs) auto
    then show ?thesis using 2(1) True tail by simp
  next
    case False
    then show ?thesis using 2(2) tail by simp
  qed
qed

lemma collapse_runs_spec_slash:
  "collapse_runs_spec (CHR ''/'' # cs) =
     CHR ''/'' # collapse_runs_spec (dropWhile (\<lambda>d. d = CHR ''/'') cs)"
proof (induction cs)
  case Nil
  show ?case by simp
next
  case (Cons d cs)
  show ?case
  proof (cases "d = CHR ''/''")
    case True
    then show ?thesis using Cons.IH by simp
  next
    case False
    then show ?thesis by (cases cs) auto
  qed
qed

lemma collapse_runs_spec_other:
  "c \<noteq> CHR ''/'' \<Longrightarrow> collapse_runs_spec (c # cs) = c # collapse_runs_spec cs"
  by (cases cs) auto

lemma replace_slash_runs_spec: "replace_slash_runs xs = collapse_runs_spec xs"
proof (induction xs rule: replace_slash_runs.induct)
  case 1
  show ?case by simp
next
  case (2 c cs)
  show ?case
  proof (cases "c = CHR ''/''")
    case True
    then show ?thesis using 2(1) collapse_runs_spec_slash by simp
  next
    case False
    then show ?thesis using 2(2) collapse_runs_spec_other by simp
  qed
qed

lemma has_slash_run_iff: "has_slash_run xs \<longleftrightarrow> str_includes xs ''//''"
  by (induction xs rule: has_slash_run.induct) auto

lemma normalizePath_no_run: "\<not> has_slash_run (normalizePath x)"
proof -
  have r: "\<not> has_slash_run (replace_slash_runs x)" by (rule replace_slash_runs_no_run)
  show ?thesis
  proof (cases "replace_slash_runs x")
    case Nil
    then show ?thesis by (simp add: normalizePath_def Let_def)
  next
    case (Cons c cs)
    then have "\<not> has_slash_run cs" using r has_slash_run_tail by metis
    then show ?thesis using r Cons by (simp add: normalizePath_def Let_def)
  qed
qed

lemma normalizePath_no_leading_slash: "\<not> startsWith (normalizePath x) ''/''"
proof (cases "replace_slash_runs x")
  case Nil
  then show ?thesis by (simp add: normalizePath_def Let_def)
next
  case (Cons c cs)
  have r: "\<not> has_slash_run (c # cs)" using replace_slash_runs_no_run [of x] Cons by simp
  show ?thesis
  proof (cases "c = CHR ''/''")
    case True
    then have "\<not> startsWith cs ''/''" using r by (cases cs) auto
    then show ?thesis using Cons True by (simp add: normalizePath_def Let_def)
  next
    case False
    then show ?thesis using Cons by (simp add: normalizePath_def Let_def)
  qed
qed

lemma normalizePath_fixpoint:
  "\<not> has_slash_run y \<Longrightarrow> \<not> startsWith y ''/'' \<Longrightarrow> normalizePath y = y"
  by (simp add: normalizePath_def Let_def replace_slash_runs_fixpoint)

lemma normalizePath_idem: "normalizePath (normalizePath x) = normalizePath x"
  using normalizePath_fixpoint normalizePath_no_run normalizePath_no_leading_slash by blast

section \<open>Claims about the path normalizer and the skip filter\<close>

text \<open>
  C5. For every input, \<open>normalizePath\<close> returns a value (it is a total function), the
  result is the input with every run of slashes replaced by a single slash (the
  regular-expression replacement agrees with the specification's collapsing, and no two
  adjacent slashes remain) and with one leading slash removed (the result never starts with
  a slash, and it is the collapsed string or that string without its first character);
  normalizing twice is the same as normalizing once; \<open>a//b/c\<close> becomes \<open>a/b/c\<close> and
  \<open>/a/b\<close> becomes \<open>a/b\<close>.
\<close>

theorem normalizePath_collapses_strips_idempotent:
  "normalizePath (normalizePath x) = normalizePath x
   \<and> replace_slash_runs x = collapse_runs_spec x
   \<and> \<not> str_includes (normalizePath x) ''//''
   \<and> \<not> startsWith (normalizePath x) ''/''
   \<and> normalizePath x =
       (if startsWith (collapse_runs_spec x) ''/'' then tl (collapse_runs_spec x)
        else collapse_runs_spec x)
   \<and> normalizePath ''a//b/c'' = ''a/b/c''
   \<and> normalizePath ''/a/b'' = ''a/b''"
proof -
  have "normalizePath ''a//b/c'' = ''a/b/c''" by (simp add: normalizePath_def Let_def)
  moreover have "normalizePath ''/a/b'' = ''a/b''" by (simp add: normalizePath_def Let_def)
  moreover have "\<not> str_includes (normalizePath x) ''//''"
    using normalizePath_no_run has_slash_run_iff by blast
  moreover have "normalizePath x =
       (if startsWith (collapse_runs_spec x) ''/'' then tl (collapse_runs_spec x)
        else collapse_runs_spec x)"
    by (simp add: normalizePath_def Let_def replace_slash_runs_spec drop_Suc)
  ultimately show ?thesis
    using normalizePath_idem replace_slash_runs_spec normalizePath_no_leading_slash by blast
qed

theorem normalizePath_collapses_strips_idempotent_witness:
  "normalizePath (normalizePath ''//img///a.png'') = ''img/a.png''
   \<and> \<not> str_includes (normalizePath ''//img///a.png'') ''//''"
  using normalizePath_collapses_strips_idempotent [of "''//img///a.png''"]
  by (simp add: normalizePath_def Let_def)

text \<open>
  C6. Every path that contains one of the markers \<open>/test/\<close>, \<open>/sample/\<close>,
  \<open>/examples/\<close>, \<open>test-\<close>, \<open>mock-\<close> or \<open>.emptyFolderPlaceholder\<close> is skipped, and
  the path \<open>images/photo.jpg\<close> is not skipped.
\<close>

theorem shouldSkipPath_markers:
  "(m \<in> set [''/test/'', ''/sample/'', ''/examples/'', ''test-'', ''mock-'',
              ''.emptyFolderPlaceholder'']
      \<longrightarrow> shouldSkipPath (a @ m @ b))
   \<and> \<not> shouldSkipPath ''images/photo.jpg''"
proof -
  have "\<not> shouldSkipPath ''images/photo.jpg''"
    by (simp add: shouldSkipPath_def skipPatterns_def)
  moreover have "m \<in> set skipPatterns \<Longrightarrow> shouldSkipPath (a @ m @ b)"
    unfolding shouldSkipPath_def list_ex_iff using str_includes_append by blast
  moreover have "set [''/test/'', ''/sample/'', ''/examples/'', ''test-'', ''mock-'',
              ''.emptyFolderPlaceholder''] \<subseteq> set skipPatterns"
    by (simp add: skipPatterns_def)
  ultimately show ?thesis by blast
qed

theorem shouldSkipPath_markers_witness:
  "''test-'' \<in> set [''/test/'', ''/sample/'', ''/examples/'', ''test-'', ''mock-'',
              ''.emptyFolderPlaceholder'']
   \<and> shouldSkipPath ''img/test-shot.png''"
  using shouldSkipPath_markers [of "''test-''" "''img/''" "''shot.png''"] by simp

section \<open>Facts and claims about content types\<close>

lemma getContentType_examples:
  "getContentType ''x/y.PNG'' = JString ''image/png''"
  "getContentType ''x/y.unknownext'' = JString ''application/octet-stream''"
  "MigrationService_getContentType ''x/y.PNG'' = JString ''image/png''"
  "MigrationService_getContentType ''x/y.unknownext'' = JString ''application/octet-stream''"
  by code_simp+

text \<open>
  Away from the inherited property names the lookup is the table lookup with the stated
  default.
\<close>

lemma content_type_of_table:
  assumes "map_of object_prototype (toLowerCase (last (split_on CHR ''.'' path))) = None"
    and "\<forall>v \<in> snd ` set table. v \<noteq> []"
  shows "content_type_of table path =
     JString (if toLowerCase (last (split_on CHR ''.'' path)) = []
              then ''application/octet-stream''
              else case map_of table (toLowerCase (last (split_on CHR ''.'' path))) of
                     Some t \<Rightarrow> t | None \<Rightarrow> ''application/octet-stream'')"
proof (cases "map_of table (toLowerCase (last (split_on CHR ''.'' path)))")
  case None
  then show ?thesis using assms(1) by (simp add: content_type_of_def get_property_def Let_def)
next
  case (Some t)
  then have "t \<in> snd ` set table" by (metis map_of_SomeD image_eqI snd_conv)
  then have "t \<noteq> []" using assms(2) by blast
  then show ?thesis using Some by (simp add: content_type_of_def get_property_def Let_def)
qed

text \<open>
  C9. The claim is that \<open>getContentType\<close> returns \<open>application/octet-stream\<close> for every
  extension that is not in the table. At the path \<open>x/y.constructor\<close> the extension
  \<open>constructor\<close> is not in the table, yet the property read finds the inherited
  \<open>Object\<close> constructor, which is truthy, and the function returns it: the result is not
  a string at all. The same holds for \<^verbatim>\<open>MigrationService.getContentType\<close>.
\<close>

theorem getContentType_inherited_property:
  "map_of contentTypes ''constructor'' = None
   \<and> getContentType ''x/y.constructor'' = JFunction ''Object''
   \<and> getContentType ''x/y.constructor'' \<noteq> JString ''application/octet-stream''
   \<and> MigrationService_getContentType ''x/y.constructor'' = JFunction ''Object''"
  by code_simp

section \<open>Facts about the migration service\<close>

lemma not_initialized_is: "is_not_initialized not_initialized_error"
  unfolding not_initialized_error_def new_Error_def by code_simp

lemma fileExistsInR2_calls:
  "set (snd (fileExistsInR2 svc w x)) \<subseteq> {HeadObject (normalizePath x)}"
  by (simp add: fileExistsInR2_def Let_def)

lemma migrateFile_counts:
  "(mp_completed (fst (migrateFile svc w p k)) = mp_completed p + 1
      \<and> mp_failed (fst (migrateFile svc w p k)) = mp_failed p)
   \<or> (mp_completed (fst (migrateFile svc w p k)) = mp_completed p
      \<and> mp_failed (fst (migrateFile svc w p k)) = mp_failed p + 1)"
  by (simp add: migrateFile_def Let_def count_completed_def migrateFile_catch_def
      split: sum.splits option.splits)

lemma migrateFile_keeps:
  "mp_total (fst (migrateFile svc w p k)) = mp_total p"
  "mp_inProgress (fst (migrateFile svc w p k)) = mp_inProgress p"
  by (simp_all add: migrateFile_def Let_def count_completed_def migrateFile_catch_def
      split: sum.splits option.splits)

lemma migrateFile_sum:
  "mp_completed (fst (migrateFile svc w p k)) + mp_failed (fst (migrateFile svc w p k))
     = Suc (mp_completed p + mp_failed p)"
  using migrateFile_counts [of svc w p k] by auto

lemma length_slice: "length (slice i (i + n) xs) = min n (length xs - i)"
  by (simp add: slice_def)

lemma run_inv_start: "run_inv files (run_start files)"
  by (simp add: run_inv_def run_start_def reset_progress_def)

lemma run_inv_step:
  assumes "run_step svc w files s s'" and "run_inv files s"
  shows "run_inv files s'"
  using assms
proof (induction rule: run_step.induct)
  case (admit s)
  then show ?case by (auto simp: run_inv_def length_slice)
next
  case (resolve k s)
  then show ?case
    by (auto simp: run_inv_def migrateFile_sum migrateFile_keeps)
next
  case (finish s)
  then show ?case by (auto simp: run_inv_def)
qed

lemma run_inv_reachable:
  assumes "rtranclp (run_step svc w files) (run_start files) s"
  shows "run_inv files s"
  using assms
proof (induction rule: rtranclp_induct)
  case base
  show ?case by (rule run_inv_start)
next
  case (step y z)
  then show ?case using run_inv_step by blast
qed

lemma run_measure_step:
  assumes "run_step svc w files s s'"
  shows "run_measure files s' < run_measure files s"
  using assms
proof (induction rule: run_step.induct)
  case (admit s)
  then show ?case by (auto simp: run_measure_def length_slice batchSize_def)
next
  case (resolve k s)
  then show ?case by (auto simp: run_measure_def migrateFile_keeps)
next
  case (finish s)
  then show ?case by (auto simp: run_measure_def)
qed

lemma run_step_exists:
  assumes "mp_inProgress (rs_progress s)"
  shows "\<exists>s'. run_step svc w files s s'"
proof (cases "rs_inflight s = []")
  case False
  then have "0 < length (rs_inflight s)" by simp
  then show ?thesis using run_step.resolve by blast
next
  case True
  then show ?thesis using assms run_step.admit run_step.finish by blast
qed

lemma migrateBatch_counts:
  "mp_completed (migrateBatch svc w p batch) + mp_failed (migrateBatch svc w p batch)
     = mp_completed p + mp_failed p + length batch
   \<and> mp_total (migrateBatch svc w p batch) = mp_total p
   \<and> mp_inProgress (migrateBatch svc w p batch) = mp_inProgress p"
  unfolding migrateBatch_def
  by (induction batch arbitrary: p) (simp_all add: migrateFile_sum migrateFile_keeps)

lemma migrateLoop_counts:
  "mp_completed (migrateLoop svc w files i p) + mp_failed (migrateLoop svc w files i p)
     = mp_completed p + mp_failed p + (length files - i)
   \<and> mp_total (migrateLoop svc w files i p) = mp_total p
   \<and> mp_inProgress (migrateLoop svc w files i p) = mp_inProgress p"
proof (induction svc w files i p rule: migrateLoop.induct)
  case (1 svc w files i p)
  show ?case
  proof (cases "i < length files")
    case True
    have "migrateLoop svc w files i p = migrateLoop svc w files (i + batchSize)
             (migrateBatch svc w p (slice i (i + batchSize) files))"
      using True by (subst migrateLoop.simps) simp
    then show ?thesis using 1 True migrateBatch_counts [of svc w p "slice i (i + batchSize) files"]
      by (auto simp: length_slice)
  next
    case False
    then show ?thesis by (subst (1 2 3 4) migrateLoop.simps) simp
  qed
qed

lemma migrateFiles_final:
  assumes "\<not> mp_inProgress p" and "r2Client svc"
  shows "\<exists>q. migrateFiles svc w p files = Inr q \<and> \<not> mp_inProgress q
           \<and> mp_completed q + mp_failed q = mp_total q \<and> mp_total q = length files"
  using assms migrateLoop_counts [of svc w files 0 "reset_progress files"]
  by (simp add: migrateFiles_def reset_progress_def)

lemma batch_reachable:
  "rtranclp (run_step svc w files)
     \<lparr>rs_progress = p, rs_inflight = ks, rs_index = i\<rparr>
     \<lparr>rs_progress = foldl (\<lambda>q k. fst (migrateFile svc w q k)) p ks, rs_inflight = [],
      rs_index = i\<rparr>"
proof (induction ks arbitrary: p)
  case Nil
  show ?case by simp
next
  case (Cons k ks)
  let ?s = "\<lparr>rs_progress = p, rs_inflight = k # ks, rs_index = i\<rparr>"
  have "0 < length (rs_inflight ?s)" by simp
  from run_step.resolve [OF this, of svc w files]
  have "run_step svc w files ?s
          \<lparr>rs_progress = fst (migrateFile svc w p k), rs_inflight = ks, rs_index = i\<rparr>"
    by simp
  then have "rtranclp (run_step svc w files) ?s
     \<lparr>rs_progress = foldl (\<lambda>q k. fst (migrateFile svc w q k)) (fst (migrateFile svc w p k)) ks,
      rs_inflight = [], rs_index = i\<rparr>"
    by (rule converse_rtranclp_into_rtranclp [OF _ Cons.IH])
  then show ?case by simp
qed

lemma loop_reachable:
  "mp_inProgress p \<Longrightarrow>
   \<exists>j. \<not> j < length files \<and>
     rtranclp (run_step svc w files)
       \<lparr>rs_progress = p, rs_inflight = [], rs_index = i\<rparr>
       \<lparr>rs_progress = migrateLoop svc w files i p, rs_inflight = [], rs_index = j\<rparr>"
proof (induction svc w files i p rule: migrateLoop.induct)
  case (1 svc w files i p)
  show ?case
  proof (cases "i < length files")
    case False
    have "migrateLoop svc w files i p = p" using False by (subst migrateLoop.simps) simp
    then have "\<not> i < length files \<and>
     rtranclp (run_step svc w files)
       \<lparr>rs_progress = p, rs_inflight = [], rs_index = i\<rparr>
       \<lparr>rs_progress = migrateLoop svc w files i p, rs_inflight = [], rs_index = i\<rparr>"
      using False by simp
    then show ?thesis by (rule exI)
  next
    case True
    let ?batch = "slice i (i + batchSize) files"
    let ?p = "migrateBatch svc w p ?batch"
    let ?s = "\<lparr>rs_progress = p, rs_inflight = [], rs_index = i\<rparr>"
    have eq: "migrateLoop svc w files i p = migrateLoop svc w files (i + batchSize) ?p"
      using True by (subst migrateLoop.simps) simp
    have "run_step svc w files ?s
            (?s\<lparr>rs_inflight := map mf_path (slice (rs_index ?s) (rs_index ?s + batchSize) files),
                rs_index := rs_index ?s + batchSize\<rparr>)"
      by (rule run_step.admit) (use True "1.prems" in simp_all)
    then have a: "run_step svc w files ?s
            \<lparr>rs_progress = p, rs_inflight = map mf_path ?batch, rs_index = i + batchSize\<rparr>"
      by simp
    have b: "rtranclp (run_step svc w files)
            \<lparr>rs_progress = p, rs_inflight = map mf_path ?batch, rs_index = i + batchSize\<rparr>
            \<lparr>rs_progress = ?p, rs_inflight = [], rs_index = i + batchSize\<rparr>"
      using batch_reachable [of svc w files p "map mf_path ?batch" "i + batchSize"]
      by (simp add: migrateBatch_def foldl_map)
    have "mp_inProgress ?p"
      using "1.prems" migrateBatch_counts [of svc w p ?batch] by simp
    from 1(1) [OF True this] obtain j where j: "\<not> j < length files \<and>
      rtranclp (run_step svc w files)
         \<lparr>rs_progress = ?p, rs_inflight = [], rs_index = i + batchSize\<rparr>
         \<lparr>rs_progress = migrateLoop svc w files (i + batchSize) ?p, rs_inflight = [],
          rs_index = j\<rparr>" ..
    have "rtranclp (run_step svc w files) ?s
         \<lparr>rs_progress = migrateLoop svc w files i p, rs_inflight = [], rs_index = j\<rparr>"
      unfolding eq
      by (rule rtranclp_trans [OF converse_rtranclp_into_rtranclp [OF a b] conjunct2 [OF j]])
    then have "\<not> j < length files \<and> rtranclp (run_step svc w files) ?s
         \<lparr>rs_progress = migrateLoop svc w files i p, rs_inflight = [], rs_index = j\<rparr>"
      using conjunct1 [OF j] by simp
    then show ?thesis by (rule exI)
  qed
qed

lemma migrateFiles_reachable:
  assumes "migrateFiles svc w p files = Inr q"
  shows "\<exists>j. rtranclp (run_step svc w files) (run_start files)
           \<lparr>rs_progress = q, rs_inflight = [], rs_index = j\<rparr>"
proof -
  let ?r = "migrateLoop svc w files 0 (reset_progress files)"
  have q: "q = ?r\<lparr>mp_inProgress := False\<rparr>"
    using assms by (simp add: migrateFiles_def split: if_splits)
  have "mp_inProgress (reset_progress files)" by (simp add: reset_progress_def)
  from loop_reachable [OF this, of files svc w 0] obtain j where j: "\<not> j < length files \<and>
    rtranclp (run_step svc w files)
       \<lparr>rs_progress = reset_progress files, rs_inflight = [], rs_index = 0\<rparr>
       \<lparr>rs_progress = ?r, rs_inflight = [], rs_index = j\<rparr>" ..
  let ?s = "\<lparr>rs_progress = ?r, rs_inflight = [], rs_index = j\<rparr>"
  have reach: "rtranclp (run_step svc w files) (run_start files) ?s"
    unfolding run_start_def by (rule conjunct2 [OF j])
  have "mp_inProgress ?r"
    using migrateLoop_counts [of svc w files 0 "reset_progress files"]
    by (simp add: reset_progress_def)
  then have "run_step svc w files ?s (?s\<lparr>rs_progress := (rs_progress ?s)\<lparr>mp_inProgress := False\<rparr>\<rparr>)"
    using conjunct1 [OF j] by (intro run_step.finish) simp_all
  then have "run_step svc w files ?s \<lparr>rs_progress = q, rs_inflight = [], rs_index = j\<rparr>"
    using q by simp
  then have "rtranclp (run_step svc w files) (run_start files)
           \<lparr>rs_progress = q, rs_inflight = [], rs_index = j\<rparr>"
    by (rule rtranclp.rtrancl_into_rtrancl [OF reach])
  then show ?thesis by (rule exI)
qed

section \<open>Claims about the migration service\<close>

text \<open>
  C1. In every state that a run of \<open>migrateFiles\<close> over the submitted files can be in,
  whatever the order in which the files of a batch resolve, \<open>total\<close> is the number of
  submitted files and \<open>completed + failed \<le> total\<close>; in a state where \<open>inProgress\<close> is
  false, \<open>completed + failed = total\<close>. Every transition brings the run closer to its end,
  and a state with \<open>inProgress\<close> true always has a next transition, so every run reaches
  \<open>inProgress = false\<close>. Resolving one file increments exactly one of \<open>completed\<close> and
  \<open>failed\<close>. Called on an idle service with a destination client, \<open>migrateFiles\<close> returns
  a progress record with \<open>inProgress\<close> false, \<open>completed + failed = total\<close> and \<open>total\<close>
  the number of submitted files, and that record is the last state of a run.
\<close>

theorem migrateFiles_counts:
  "(rtranclp (run_step svc w files) (run_start files) s \<longrightarrow>
      mp_total (rs_progress s) = length files
      \<and> mp_completed (rs_progress s) + mp_failed (rs_progress s) \<le> mp_total (rs_progress s)
      \<and> (\<not> mp_inProgress (rs_progress s) \<longrightarrow>
            mp_completed (rs_progress s) + mp_failed (rs_progress s) = mp_total (rs_progress s)))
   \<and> (run_step svc w files s s' \<longrightarrow> run_measure files s' < run_measure files s)
   \<and> (mp_inProgress (rs_progress s) \<longrightarrow> (\<exists>t. run_step svc w files s t))
   \<and> (mp_completed (fst (migrateFile svc w p k)) = mp_completed p + 1
         \<and> mp_failed (fst (migrateFile svc w p k)) = mp_failed p
       \<or> mp_completed (fst (migrateFile svc w p k)) = mp_completed p
         \<and> mp_failed (fst (migrateFile svc w p k)) = mp_failed p + 1)
   \<and> (\<not> mp_inProgress p \<and> r2Client svc \<longrightarrow>
        (\<exists>q. migrateFiles svc w p files = Inr q
           \<and> \<not> mp_inProgress q
           \<and> mp_completed q + mp_failed q = mp_total q
           \<and> mp_total q = length files
           \<and> (\<exists>j. rtranclp (run_step svc w files) (run_start files)
                      \<lparr>rs_progress = q, rs_inflight = [], rs_index = j\<rparr>)))"
proof -
  have inv: "rtranclp (run_step svc w files) (run_start files) s \<longrightarrow>
      mp_total (rs_progress s) = length files
      \<and> mp_completed (rs_progress s) + mp_failed (rs_progress s) \<le> mp_total (rs_progress s)
      \<and> (\<not> mp_inProgress (rs_progress s) \<longrightarrow>
            mp_completed (rs_progress s) + mp_failed (rs_progress s) = mp_total (rs_progress s))"
  proof
    assume "rtranclp (run_step svc w files) (run_start files) s"
    then have "run_inv files s" by (rule run_inv_reachable)
    then show "mp_total (rs_progress s) = length files
      \<and> mp_completed (rs_progress s) + mp_failed (rs_progress s) \<le> mp_total (rs_progress s)
      \<and> (\<not> mp_inProgress (rs_progress s) \<longrightarrow>
            mp_completed (rs_progress s) + mp_failed (rs_progress s) = mp_total (rs_progress s))"
      unfolding run_inv_def by auto
  qed
  have fin: "\<not> mp_inProgress p \<and> r2Client svc \<longrightarrow>
        (\<exists>q. migrateFiles svc w p files = Inr q
           \<and> \<not> mp_inProgress q
           \<and> mp_completed q + mp_failed q = mp_total q
           \<and> mp_total q = length files
           \<and> (\<exists>j. rtranclp (run_step svc w files) (run_start files)
                      \<lparr>rs_progress = q, rs_inflight = [], rs_index = j\<rparr>))"
  proof
    assume "\<not> mp_inProgress p \<and> r2Client svc"
    then obtain q where q: "migrateFiles svc w p files = Inr q \<and> \<not> mp_inProgress q
           \<and> mp_completed q + mp_failed q = mp_total q \<and> mp_total q = length files"
      using migrateFiles_final [of p svc w files] by blast
    then have "\<exists>j. rtranclp (run_step svc w files) (run_start files)
                      \<lparr>rs_progress = q, rs_inflight = [], rs_index = j\<rparr>"
      using migrateFiles_reachable [of svc w p files q] by simp
    then show "\<exists>q. migrateFiles svc w p files = Inr q
           \<and> \<not> mp_inProgress q
           \<and> mp_completed q + mp_failed q = mp_total q
           \<and> mp_total q = length files
           \<and> (\<exists>j. rtranclp (run_step svc w files) (run_start files)
                      \<lparr>rs_progress = q, rs_inflight = [], rs_index = j\<rparr>)"
      using q by (intro exI [of _ q]) simp
  qed
  have dec: "run_step svc w files s s' \<longrightarrow> run_measure files s' < run_measure files s"
    using run_measure_step by blast
  have nxt: "mp_inProgress (rs_progress s) \<longrightarrow> (\<exists>t. run_step svc w files s t)"
    using run_step_exists by blast
  show ?thesis
    by (intro conjI inv dec nxt fin migrateFile_counts)
qed

lemma example_first_step:
  "run_step example_service example_world example_files (run_start example_files)
     example_admitted"
  using run_step.admit [of "run_start example_files" example_files example_service example_world]
  by (simp add: run_start_def example_admitted_def example_files_def slice_def batchSize_def
      reset_progress_def to_file_def)

lemma example_second_step:
  "run_step example_service example_world example_files example_admitted example_resolved"
  using run_step.resolve [of 2 example_admitted example_service example_world example_files]
  by (simp add: example_admitted_def example_resolved_def example_files_def
      reset_progress_def migrateFile_def shouldSkipPath_def skipPatterns_def normalizePath_def
      fileExistsInR2_def fileExistsInR2_catch_def uploadToR2_def example_service_def
      example_world_def example_failure_def migrateFile_catch_def new_Error_def Let_def
      numeral_3_eq_3)

theorem migrateFiles_counts_witness:
  "rtranclp (run_step example_service example_world example_files) (run_start example_files)
      example_admitted
   \<and> mp_completed (rs_progress example_admitted) + mp_failed (rs_progress example_admitted)
        \<le> mp_total (rs_progress example_admitted)
   \<and> mp_inProgress (rs_progress example_admitted)
   \<and> run_step example_service example_world example_files example_admitted example_resolved
   \<and> run_measure example_files example_resolved < run_measure example_files example_admitted
   \<and> \<not> mp_inProgress idle_progress \<and> r2Client example_service
   \<and> (\<exists>q. migrateFiles example_service example_world idle_progress example_files = Inr q
          \<and> \<not> mp_inProgress q
          \<and> mp_completed q + mp_failed q = mp_total q
          \<and> mp_total q = length example_files)"
proof -
  have reach: "rtranclp (run_step example_service example_world example_files)
      (run_start example_files) example_admitted"
    using example_first_step by (rule r_into_rtranclp)
  have idle: "\<not> mp_inProgress idle_progress \<and> r2Client example_service"
    by (simp add: idle_progress_def example_service_def)
  have busy: "mp_inProgress (rs_progress example_admitted)"
    by (simp add: example_admitted_def reset_progress_def)
  show ?thesis
    using migrateFiles_counts [of example_service example_world example_files example_admitted
        example_resolved idle_progress "''c.pdf''"] reach example_second_step idle busy
    by blast
qed

lemma migrateFiles_example:
  "migrateFiles example_service example_world idle_progress example_files =
     Inr \<lparr>mp_total = 3, mp_completed = 2, mp_failed = 1, mp_inProgress = False,
          mp_errors = [''c.pdf'' \<mapsto> ''Failed to upload to R2: boom'']\<rparr>"
  by (simp add: migrateFiles_def migrateLoop.simps migrateBatch_def slice_def batchSize_def
      idle_progress_def example_files_def to_file_def
      reset_progress_def migrateFile_def shouldSkipPath_def skipPatterns_def normalizePath_def
      fileExistsInR2_def fileExistsInR2_catch_def uploadToR2_def example_service_def
      example_world_def example_failure_def example_success_def migrateFile_catch_def
      count_completed_def new_Error_def Let_def)

text \<open>
  C2, as stated, requires a failure of the probe other than "not found" to come back as an
  error. With a destination that denies access, the specification's contract gives an
  error, and \<open>fileExistsInR2\<close> returns \<^verbatim>\<open>false\<close>.
\<close>

theorem fileExistsInR2_failure_is_false:
  "\<not> reports_not_found (ErrorInstance ''AccessDenied'' ''Access Denied'')
   \<and> existsAtDestination_spec example_service denying_world ''a.png''
        = Inl (ErrorInstance ''AccessDenied'' ''Access Denied'')
   \<and> fst (fileExistsInR2 example_service denying_world ''a.png'') = Inr False"
  by (simp add: existsAtDestination_spec_def fileExistsInR2_def fileExistsInR2_catch_def
      example_service_def denying_world_def Let_def)

text \<open>
  C2, amended. Without a destination client the check throws the not-initialized error and
  sends no probe. With a client it returns \<^verbatim>\<open>true\<close> when the probe succeeds; when the probe
  fails it returns \<^verbatim>\<open>false\<close> whatever the failure is (not found, authorization, network),
  unless the failure is an \<^verbatim>\<open>Error\<close> whose message contains \<open>not initialized\<close>, which is
  thrown again. So \<^verbatim>\<open>false\<close> is returned exactly when there is a client and the probe fails
  with a failure of the first kind.
\<close>

theorem fileExistsInR2_outcomes:
  "(\<not> r2Client svc \<longrightarrow> fileExistsInR2 svc w key = (Inl not_initialized_error, []))
   \<and> (r2Client svc \<and> head_object w (normalizePath key) = None \<longrightarrow>
        fst (fileExistsInR2 svc w key) = Inr True)
   \<and> (r2Client svc \<and> head_object w (normalizePath key) = Some e \<and> \<not> is_not_initialized e \<longrightarrow>
        fst (fileExistsInR2 svc w key) = Inr False)
   \<and> (r2Client svc \<and> head_object w (normalizePath key) = Some e \<and> is_not_initialized e \<longrightarrow>
        fst (fileExistsInR2 svc w key) = Inl e)
   \<and> (fst (fileExistsInR2 svc w key) = Inr False \<longleftrightarrow>
        r2Client svc \<and> (\<exists>x. head_object w (normalizePath key) = Some x \<and> \<not> is_not_initialized x))"
  using not_initialized_is
  by (auto simp: fileExistsInR2_def fileExistsInR2_catch_def Let_def split: option.splits)

theorem fileExistsInR2_outcomes_witness:
  "\<not> r2Client (example_service\<lparr>r2Client := False\<rparr>)
   \<and> fileExistsInR2 (example_service\<lparr>r2Client := False\<rparr>) example_world ''a.jpg''
        = (Inl not_initialized_error, [])
   \<and> r2Client example_service
   \<and> head_object example_world (normalizePath ''/a.jpg'') = None
   \<and> fst (fileExistsInR2 example_service example_world ''/a.jpg'') = Inr True
   \<and> head_object denying_world (normalizePath ''b.png'')
        = Some (ErrorInstance ''AccessDenied'' ''Access Denied'')
   \<and> \<not> is_not_initialized (ErrorInstance ''AccessDenied'' ''Access Denied'')
   \<and> fst (fileExistsInR2 example_service denying_world ''b.png'') = Inr False
   \<and> head_object uninitialized_world (normalizePath ''b.png'')
        = Some (new_Error ''Credentials not initialized'')
   \<and> is_not_initialized (new_Error ''Credentials not initialized'')
   \<and> fst (fileExistsInR2 example_service uninitialized_world ''b.png'')
        = Inl (new_Error ''Credentials not initialized'')"
  using fileExistsInR2_outcomes [of "example_service\<lparr>r2Client := False\<rparr>" example_world
      "''a.jpg''" NonError]
    fileExistsInR2_outcomes [of example_service uninitialized_world "''b.png''"
      "new_Error ''Credentials not initialized''"]
    fileExistsInR2_outcomes [of example_service example_world "''/a.jpg''" NonError]
    fileExistsInR2_outcomes [of example_service denying_world "''b.png''"
      "ErrorInstance ''AccessDenied'' ''Access Denied''"]
  by (simp add: example_service_def example_world_def denying_world_def uninitialized_world_def
      new_Error_def normalizePath_def Let_def)

text \<open>
  C7. When the existence check answers \<^verbatim>\<open>true\<close> for the key of a file, \<open>migrateFile\<close> sends
  no transfer request for it, and it increments \<open>completed\<close> and leaves \<open>failed\<close> and the
  error map as they are.
\<close>

theorem migrateFile_existing_not_transferred:
  "fst (fileExistsInR2 svc w (normalizePath k)) = Inr True \<Longrightarrow>
     (\<forall>x. ApiMigrate x \<notin> set (snd (migrateFile svc w p k)))
     \<and> mp_completed (fst (migrateFile svc w p k)) = mp_completed p + 1
     \<and> mp_failed (fst (migrateFile svc w p k)) = mp_failed p
     \<and> mp_errors (fst (migrateFile svc w p k)) = mp_errors p"
proof -
  assume ex: "fst (fileExistsInR2 svc w (normalizePath k)) = Inr True"
  have "\<And>x. ApiMigrate x \<notin> set (snd (fileExistsInR2 svc w (normalizePath k)))"
    using fileExistsInR2_calls [of svc w "normalizePath k"] by auto
  then show ?thesis
    using ex by (simp add: migrateFile_def Let_def count_completed_def)
qed

theorem migrateFile_existing_not_transferred_witness:
  "fst (fileExistsInR2 example_service example_world (normalizePath ''/a.jpg'')) = Inr True
   \<and> snd (migrateFile example_service example_world (reset_progress example_files) ''/a.jpg'')
        = [HeadObject ''a.jpg'']
   \<and> mp_completed (fst (migrateFile example_service example_world (reset_progress example_files)
        ''/a.jpg'')) = 1"
  using migrateFile_existing_not_transferred [of example_service example_world "''/a.jpg''"
      "reset_progress example_files"]
  by (simp add: migrateFile_def shouldSkipPath_def skipPatterns_def normalizePath_def
      fileExistsInR2_def example_service_def example_world_def reset_progress_def
      count_completed_def Let_def)

section \<open>Facts and claims about the listing\<close>

lemma listFiles_items_all:
  assumes "\<And>p fs c. recurse p = Some (Inr fs, c) \<Longrightarrow> \<forall>f \<in> set fs. P f"
    and "\<forall>f \<in> set files. P f"
    and "\<And>name sz lm. \<not> shouldSkipPath (join_path np name) \<Longrightarrow>
           P \<lparr>mf_path = join_path np name, mf_size = sz, mf_lastModified = lm,
              mf_selected = Some True\<rparr>"
    and "listFiles_items recurse np entries files calls = Some (Inr out, c')"
  shows "\<forall>f \<in> set out. P f"
  using assms(2,4)
proof (induction entries arbitrary: files calls)
  case Nil
  then show ?case by simp
next
  case (Cons item items)
  show ?case
  proof (cases "shouldSkipPath (join_path np (item_name item))")
    case True
    then show ?thesis using Cons by (simp add: Let_def)
  next
    case skip: False
    show ?thesis
    proof (cases "is_folder item")
      case False
      let ?f = "\<lparr>mf_path = join_path np (item_name item),
                  mf_size = (case item_size item of None \<Rightarrow> 0 | Some n \<Rightarrow> n),
                  mf_lastModified = item_lastModified item, mf_selected = Some True\<rparr>"
      have "P ?f" using assms(3) skip by blast
      then have "\<forall>f \<in> set (files @ [?f]). P f" using Cons.prems(1) by simp
      moreover have "listFiles_items recurse np items (files @ [?f]) calls = Some (Inr out, c')"
        using Cons.prems(2) skip False by (simp add: Let_def)
      ultimately show ?thesis using Cons.IH by blast
    next
      case True
      from Cons.prems(2) skip True obtain subFiles sent where
        r: "recurse (join_path np (item_name item)) = Some (Inr subFiles, sent)"
        and rest: "listFiles_items recurse np items (files @ subFiles) (calls @ sent)
                    = Some (Inr out, c')"
        by (auto simp: Let_def split: option.splits sum.splits prod.splits)
      have "\<forall>f \<in> set subFiles. P f" using assms(1) r by blast
      then have "\<forall>f \<in> set (files @ subFiles). P f" using Cons.prems(1) by auto
      then show ?thesis using Cons.IH rest by blast
    qed
  qed
qed

lemma listFiles_all:
  "listFiles fuel svc w path = Some (Inr files, calls) \<Longrightarrow>
     \<forall>f \<in> set files. \<not> shouldSkipPath (mf_path f) \<and> mf_selected f = Some True"
proof (induction fuel arbitrary: path files calls)
  case 0
  then show ?case by simp
next
  case (Suc fuel)
  show ?case
  proof (cases "sb_bucketName (supabaseConfig svc) = [] \<or> shouldSkipPath (normalizePath path)")
    case True
    then show ?thesis using Suc.prems by (auto simp: Let_def split: if_splits)
  next
    case False
    then obtain entries where
      l: "storage_list w (normalizePath path) = ListData entries"
      and r: "listFiles_items (listFiles fuel svc w) (normalizePath path) entries []
               [StorageList (normalizePath path)] = Some (Inr files, calls)"
      using Suc.prems by (auto simp: Let_def split: list_outcome.splits if_splits)
    show ?thesis
    proof (rule listFiles_items_all [where recurse = "listFiles fuel svc w"
          and np = "normalizePath path" and files = "[]", OF _ _ _ r])
      show "\<And>p fs c. listFiles fuel svc w p = Some (Inr fs, c) \<Longrightarrow>
              \<forall>f\<in>set fs. \<not> shouldSkipPath (mf_path f) \<and> mf_selected f = Some True"
        using Suc.IH by blast
    qed simp_all
  qed
qed

lemma new_MigrationService_bucket:
  "new_MigrationService url_ok sconfig cconfig = Inr svc \<Longrightarrow>
     sb_bucketName (supabaseConfig svc) \<noteq> []"
  by (auto simp: new_MigrationService_def SupabaseConfigSchema_parse_def
      split: sum.splits if_splits)

lemma example_service_constructed:
  "new_MigrationService example_is_url (supabaseConfig example_service)
     (cloudflareConfig example_service) = Inr example_service"
  by (simp add: new_MigrationService_def SupabaseConfigSchema_parse_def example_is_url_def
      example_service_def)

lemma listFiles_example:
  "listFiles 2 example_service example_world [] =
     Some (Inr [\<lparr>mf_path = ''a.jpg'', mf_size = 10, mf_lastModified = None,
                  mf_selected = Some True\<rparr>,
                \<lparr>mf_path = ''images/b.png'', mf_size = 20, mf_lastModified = None,
                  mf_selected = Some True\<rparr>,
                \<lparr>mf_path = ''c.pdf'', mf_size = 30, mf_lastModified = None,
                  mf_selected = Some True\<rparr>],
           [StorageList [], StorageList ''images''])"
  by code_simp

lemma listFiles_example_skipped: "shouldSkipPath (normalizePath ''x/test/photos'')"
  by code_simp

text \<open>
  C10, as stated, has \<open>listFiles\<close> return the empty list, without a listing request,
  whenever the start path matches the skip policy. The start path \<open>/test/photos\<close> matches
  it (it contains \<open>/test/\<close>); the function tests the normalized path \<open>test/photos\<close>, which
  does not, and goes on to list it.
\<close>

theorem listFiles_tests_normalized_path:
  "shouldSkipPath ''/test/photos''
   \<and> \<not> shouldSkipPath (normalizePath ''/test/photos'')
   \<and> listFiles 1 example_service example_world ''/test/photos'' =
       Some (Inl (new_Error (''Bucket '' @ [CHR 0x22] @ ''mybucket'' @ [CHR 0x22] @
                    '' does not exist or is not accessible'')),
             [StorageList ''test/photos''])"
  by code_simp

text \<open>
  C10, amended. For a service that the constructor has built (so that its bucket name is
  not empty): every file in a result of \<open>listFiles\<close> has a path that the skip policy does
  not match and is marked selected; and when the normalized start path matches the skip
  policy, \<open>listFiles\<close> returns the empty list and sends no listing request.
\<close>

theorem listFiles_unskipped_selected:
  assumes "new_MigrationService url_ok sconfig cconfig = Inr svc"
  shows "(listFiles fuel svc w path = Some (Inr files, calls) \<longrightarrow>
            (\<forall>f \<in> set files. \<not> shouldSkipPath (mf_path f) \<and> mf_selected f = Some True))
         \<and> (shouldSkipPath (normalizePath path) \<longrightarrow>
              listFiles (Suc fuel) svc w path = Some (Inr [], []))"
proof -
  have "sb_bucketName (supabaseConfig svc) \<noteq> []"
    using assms by (rule new_MigrationService_bucket)
  then have "shouldSkipPath (normalizePath path) \<longrightarrow>
              listFiles (Suc fuel) svc w path = Some (Inr [], [])"
    by (simp add: Let_def)
  then show ?thesis using listFiles_all by blast
qed

theorem listFiles_unskipped_selected_witness:
  "new_MigrationService example_is_url (supabaseConfig example_service)
     (cloudflareConfig example_service) = Inr example_service
   \<and> listFiles 2 example_service example_world [] =
     Some (Inr [\<lparr>mf_path = ''a.jpg'', mf_size = 10, mf_lastModified = None,
                  mf_selected = Some True\<rparr>,
                \<lparr>mf_path = ''images/b.png'', mf_size = 20, mf_lastModified = None,
                  mf_selected = Some True\<rparr>,
                \<lparr>mf_path = ''c.pdf'', mf_size = 30, mf_lastModified = None,
                  mf_selected = Some True\<rparr>],
           [StorageList [], StorageList ''images''])
   \<and> \<not> shouldSkipPath ''images/b.png''
   \<and> shouldSkipPath (normalizePath ''x/test/photos'')
   \<and> listFiles (Suc 0) example_service example_world ''x/test/photos'' = Some (Inr [], [])"
  using listFiles_unskipped_selected [OF example_service_constructed, of 2 example_world "[]"
      "[\<lparr>mf_path = ''a.jpg'', mf_size = 10, mf_lastModified = None, mf_selected = Some True\<rparr>,
        \<lparr>mf_path = ''images/b.png'', mf_size = 20, mf_lastModified = None,
          mf_selected = Some True\<rparr>,
        \<lparr>mf_path = ''c.pdf'', mf_size = 30, mf_lastModified = None, mf_selected = Some True\<rparr>]"
      "[StorageList [], StorageList ''images'']"]
    listFiles_unskipped_selected [OF example_service_constructed, of 0 example_world
      "''x/test/photos''" "[]" "[]"]
    example_service_constructed listFiles_example listFiles_example_skipped
  by simp

section \<open>Facts and claims about the transfer\<close>

lemma transfer_steps_download_failed:
  assumes "download_failed (source_download w (sb_bucketName sc) key)"
  shows "is_failure (fst (fst (transfer_steps w st sc cc key)))
         \<and> fst (snd (transfer_steps w st sc cc key)) = st
         \<and> snd (snd (transfer_steps w st sc cc key)) = [Download (sb_bucketName sc) key]"
  using assms
  by (cases "source_download w (sb_bucketName sc) key") (simp_all add: transfer_steps_def Let_def)

lemma SupabaseConfigSchema_parse_same:
  "SupabaseConfigSchema_parse u c = Inr v \<Longrightarrow> v = c"
  by (auto simp: SupabaseConfigSchema_parse_def split: if_splits)

lemma CloudflareConfigSchema_parse_same:
  "CloudflareConfigSchema_parse c = Inr v \<Longrightarrow> v = c"
  by (auto simp: CloudflareConfigSchema_parse_def split: if_splits)

lemma POST_download_failed:
  assumes "download_failed (source_download w (sb_bucketName sconfig) (normalizePath filePath))"
  shows "is_failure (fst (fst (POST w st (request_body sconfig cconfig filePath))))
         \<and> fst (snd (POST w st (request_body sconfig cconfig filePath))) = st
         \<and> \<not> list_ex is_put (snd (snd (POST w st (request_body sconfig cconfig filePath))))"
proof (cases "filePath \<noteq> [] \<and> SupabaseConfigSchema_parse (is_url w) sconfig = Inr sconfig
              \<and> CloudflareConfigSchema_parse cconfig = Inr cconfig")
  case True
  then have "POST w st (request_body sconfig cconfig filePath) =
      transfer_steps w st sconfig cconfig (normalizePath filePath)"
    by (simp add: POST_def request_body_def Let_def)
  then show ?thesis
    using transfer_steps_download_failed [OF assms, of st cconfig] by simp
next
  case False
  then show ?thesis
    using SupabaseConfigSchema_parse_same [of "is_url w" sconfig]
      CloudflareConfigSchema_parse_same [of cconfig]
    by (auto simp: POST_def request_body_def Let_def split: sum.splits)
qed

lemma migrateFileToR2_download_failed:
  assumes "download_failed (source_download w (sb_bucketName sconfig) (normalizePath filePath))"
  shows "is_failure (fst (migrateFileToR2 w st sconfig cconfig filePath))
         \<and> fst (snd (migrateFileToR2 w st sconfig cconfig filePath)) = st
         \<and> \<not> list_ex is_put (snd (snd (migrateFileToR2 w st sconfig cconfig filePath)))"
proof (cases "SupabaseConfigSchema_parse (is_url w) sconfig = Inr sconfig
              \<and> CloudflareConfigSchema_parse cconfig = Inr cconfig")
  case True
  obtain r status st' calls where
    t: "transfer_steps w st sconfig cconfig (normalizePath filePath) = ((r, status), st', calls)"
    by (metis prod.exhaust)
  then have "migrateFileToR2 w st sconfig cconfig filePath = (r, st', calls)"
    using True by (simp add: migrateFileToR2_def Let_def)
  then show ?thesis
    using transfer_steps_download_failed [OF assms, of st cconfig] t by simp
next
  case False
  then show ?thesis
    using SupabaseConfigSchema_parse_same [of "is_url w" sconfig]
      CloudflareConfigSchema_parse_same [of cconfig]
    by (auto simp: migrateFileToR2_def Let_def split: sum.splits)
qed

lemma toLowerCase_append: "toLowerCase (a @ b) = toLowerCase a @ toLowerCase b"
  by (simp add: toLowerCase_def)

lemma download_messages_named:
  "download_side_message (''Error downloading file: '' @ m)"
  "download_side_message ''File could not be downloaded''"
proof -
  have low: "toLowerCase ''Error downloading file: '' = ''error '' @ ''download'' @ ''ing file: ''"
    by code_simp
  have "toLowerCase (''Error downloading file: '' @ m)
          = toLowerCase ''Error downloading file: '' @ toLowerCase m"
    by (rule toLowerCase_append)
  also have "\<dots> = (''error '' @ ''download'' @ ''ing file: '') @ toLowerCase m"
    by (simp only: low)
  also have "\<dots> = ''error '' @ ''download'' @ (''ing file: '' @ toLowerCase m)"
    by (simp only: append_assoc)
  finally have "str_includes (toLowerCase (''Error downloading file: '' @ m)) ''download''"
    by (simp only: str_includes_append)
  then show "download_side_message (''Error downloading file: '' @ m)"
    by (simp only: download_side_message_def)
  show "download_side_message ''File could not be downloaded''"
    by code_simp
qed

text \<open>
  C8, as stated, has every failed download answered with a download-side error message.
  When the download throws, the handler and the server action reach their general
  \<^verbatim>\<open>catch\<close> and reply with the message of the thrown error as it is, here
  \<open>fetch failed\<close>, which does not name the download. (The reply is a failure, and nothing
  is written.)
\<close>

theorem download_throw_reply_unmarked:
  "download_failed (source_download throwing_server ''mybucket'' (normalizePath ''a.jpg''))
   \<and> POST throwing_server Map.empty (example_request ''a.jpg'') =
        ((ReplyFailure ''fetch failed'', 500), Map.empty, [Download ''mybucket'' ''a.jpg''])
   \<and> migrateFileToR2 throwing_server Map.empty (supabaseConfig example_service)
        (cloudflareConfig example_service) ''a.jpg'' =
        (ReplyFailure ''fetch failed'', Map.empty, [Download ''mybucket'' ''a.jpg''])
   \<and> \<not> download_side_message ''fetch failed''"
proof -
  have "\<not> download_side_message ''fetch failed''" by code_simp
  then show ?thesis
    by (simp add: POST_def migrateFileToR2_def example_request_def request_body_def
        throwing_server_def example_service_def example_is_url_def
        SupabaseConfigSchema_parse_def CloudflareConfigSchema_parse_def normalizePath_def
        transfer_steps_def Let_def)
qed

text \<open>
  C8, amended. Whenever the download from the source fails (it reports an error, it yields
  no data, or it throws), the route handler and the server action reply with a failure, the
  destination store is what it was, and no put request is among the requests sent. For a
  valid request the reply comes after the download request alone, and its message is: for
  a reported download error with message \<open>m\<close>, \<open>Error downloading file: m\<close>; for a
  download without data, \<open>File could not be downloaded\<close> (status 404 from the handler in
  both cases, and both messages name the download); for a download that throws, the
  message of the thrown error as it is, or \<open>Unknown error occurred\<close> when the thrown value
  is not an instance of \<^verbatim>\<open>Error\<close> (status 500 from the handler), without any mention of the
  download added to it.
\<close>

theorem download_failure_writes_nothing:
  "(download_failed (source_download w (sb_bucketName sconfig) (normalizePath filePath)) \<longrightarrow>
      is_failure (fst (fst (POST w st (request_body sconfig cconfig filePath))))
      \<and> fst (snd (POST w st (request_body sconfig cconfig filePath))) = st
      \<and> \<not> list_ex is_put (snd (snd (POST w st (request_body sconfig cconfig filePath))))
      \<and> is_failure (fst (migrateFileToR2 w st sconfig cconfig filePath))
      \<and> fst (snd (migrateFileToR2 w st sconfig cconfig filePath)) = st
      \<and> \<not> list_ex is_put (snd (snd (migrateFileToR2 w st sconfig cconfig filePath))))
   \<and> (filePath \<noteq> [] \<and> SupabaseConfigSchema_parse (is_url w) sconfig = Inr sconfig
        \<and> CloudflareConfigSchema_parse cconfig = Inr cconfig \<longrightarrow>
      (source_download w (sb_bucketName sconfig) (normalizePath filePath) = DownloadError m \<longrightarrow>
         POST w st (request_body sconfig cconfig filePath) =
           ((ReplyFailure (''Error downloading file: '' @ m), 404), st,
            [Download (sb_bucketName sconfig) (normalizePath filePath)])
         \<and> migrateFileToR2 w st sconfig cconfig filePath =
           (ReplyFailure (''Error downloading file: '' @ m), st,
            [Download (sb_bucketName sconfig) (normalizePath filePath)]))
      \<and> (source_download w (sb_bucketName sconfig) (normalizePath filePath) = DownloadNoData \<longrightarrow>
         POST w st (request_body sconfig cconfig filePath) =
           ((ReplyFailure ''File could not be downloaded'', 404), st,
            [Download (sb_bucketName sconfig) (normalizePath filePath)])
         \<and> migrateFileToR2 w st sconfig cconfig filePath =
           (ReplyFailure ''File could not be downloaded'', st,
            [Download (sb_bucketName sconfig) (normalizePath filePath)]))
      \<and> (source_download w (sb_bucketName sconfig) (normalizePath filePath) = DownloadThrows e \<longrightarrow>
         POST w st (request_body sconfig cconfig filePath) =
           ((ReplyFailure (message_or ''Unknown error occurred'' e), 500), st,
            [Download (sb_bucketName sconfig) (normalizePath filePath)])
         \<and> migrateFileToR2 w st sconfig cconfig filePath =
           (ReplyFailure (message_or ''Unknown error occurred'' e), st,
            [Download (sb_bucketName sconfig) (normalizePath filePath)])))
   \<and> download_side_message (''Error downloading file: '' @ m)
   \<and> download_side_message ''File could not be downloaded''"
proof -
  have msgs: "filePath \<noteq> [] \<and> SupabaseConfigSchema_parse (is_url w) sconfig = Inr sconfig
        \<and> CloudflareConfigSchema_parse cconfig = Inr cconfig \<longrightarrow>
      (source_download w (sb_bucketName sconfig) (normalizePath filePath) = DownloadError m \<longrightarrow>
         POST w st (request_body sconfig cconfig filePath) =
           ((ReplyFailure (''Error downloading file: '' @ m), 404), st,
            [Download (sb_bucketName sconfig) (normalizePath filePath)])
         \<and> migrateFileToR2 w st sconfig cconfig filePath =
           (ReplyFailure (''Error downloading file: '' @ m), st,
            [Download (sb_bucketName sconfig) (normalizePath filePath)]))
      \<and> (source_download w (sb_bucketName sconfig) (normalizePath filePath) = DownloadNoData \<longrightarrow>
         POST w st (request_body sconfig cconfig filePath) =
           ((ReplyFailure ''File could not be downloaded'', 404), st,
            [Download (sb_bucketName sconfig) (normalizePath filePath)])
         \<and> migrateFileToR2 w st sconfig cconfig filePath =
           (ReplyFailure ''File could not be downloaded'', st,
            [Download (sb_bucketName sconfig) (normalizePath filePath)]))
      \<and> (source_download w (sb_bucketName sconfig) (normalizePath filePath) = DownloadThrows e \<longrightarrow>
         POST w st (request_body sconfig cconfig filePath) =
           ((ReplyFailure (message_or ''Unknown error occurred'' e), 500), st,
            [Download (sb_bucketName sconfig) (normalizePath filePath)])
         \<and> migrateFileToR2 w st sconfig cconfig filePath =
           (ReplyFailure (message_or ''Unknown error occurred'' e), st,
            [Download (sb_bucketName sconfig) (normalizePath filePath)]))"
    by (simp add: POST_def migrateFileToR2_def request_body_def transfer_steps_def Let_def)
  show ?thesis
    using msgs POST_download_failed [of w sconfig filePath st cconfig]
      migrateFileToR2_download_failed [of w sconfig filePath st cconfig]
      download_messages_named(1) [of m] download_messages_named(2)
    by blast
qed

theorem download_failure_writes_nothing_witness:
  "download_failed (source_download example_server ''mybucket'' (normalizePath ''/c.pdf''))
   \<and> source_download example_server ''mybucket'' (normalizePath ''/c.pdf'')
        = DownloadError ''Object not found''
   \<and> SupabaseConfigSchema_parse (is_url example_server) (supabaseConfig example_service)
        = Inr (supabaseConfig example_service)
   \<and> CloudflareConfigSchema_parse (cloudflareConfig example_service)
        = Inr (cloudflareConfig example_service)
   \<and> POST example_server Map.empty (example_request ''/c.pdf'') =
        ((ReplyFailure ''Error downloading file: Object not found'', 404), Map.empty,
         [Download ''mybucket'' ''c.pdf''])
   \<and> migrateFileToR2 example_server Map.empty (supabaseConfig example_service)
        (cloudflareConfig example_service) ''/c.pdf'' =
        (ReplyFailure ''Error downloading file: Object not found'', Map.empty,
         [Download ''mybucket'' ''c.pdf''])
   \<and> source_download example_server ''mybucket'' (normalizePath ''d.pdf'') = DownloadNoData
   \<and> POST example_server Map.empty (example_request ''d.pdf'') =
        ((ReplyFailure ''File could not be downloaded'', 404), Map.empty,
         [Download ''mybucket'' ''d.pdf''])
   \<and> SupabaseConfigSchema_parse (is_url throwing_server) (supabaseConfig example_service)
        = Inr (supabaseConfig example_service)
   \<and> source_download throwing_server ''mybucket'' (normalizePath ''a.jpg'')
        = DownloadThrows (ErrorInstance ''TypeError'' ''fetch failed'')
   \<and> POST throwing_server Map.empty (example_request ''a.jpg'') =
        ((ReplyFailure ''fetch failed'', 500), Map.empty, [Download ''mybucket'' ''a.jpg''])"
  using download_failure_writes_nothing [of example_server "supabaseConfig example_service"
      "''/c.pdf''" Map.empty "cloudflareConfig example_service" "''Object not found''" NonError]
    download_failure_writes_nothing [of example_server "supabaseConfig example_service"
      "''d.pdf''" Map.empty "cloudflareConfig example_service" "[]" NonError]
    download_failure_writes_nothing [of throwing_server "supabaseConfig example_service"
      "''a.jpg''" Map.empty "cloudflareConfig example_service" "[]"
      "ErrorInstance ''TypeError'' ''fetch failed''"]
  by (simp add: example_server_def throwing_server_def example_service_def example_request_def
      example_is_url_def SupabaseConfigSchema_parse_def CloudflareConfigSchema_parse_def
      normalizePath_def Let_def)

lemma POST_example_success:
  "POST example_server Map.empty (example_request ''/a.jpg'') =
     ((ReplySuccess ''https://dest.acct.r2.cloudflarestorage.com/a.jpg''
         ''Successfully migrated a.jpg'', 200),
      [(''dest'', ''a.jpg'') \<mapsto> (''0123456789'', JString ''image/jpeg'')],
      [Download ''mybucket'' ''a.jpg'', PutObject ''dest'' ''a.jpg'' (JString ''image/jpeg'')])"
proof -
  have "getContentType ''a.jpg'' = JString ''image/jpeg''" by code_simp
  then show ?thesis
    by (simp add: POST_def example_request_def request_body_def example_server_def
        example_service_def example_is_url_def SupabaseConfigSchema_parse_def
        CloudflareConfigSchema_parse_def normalizePath_def transfer_steps_def fileUrl_def Let_def)
qed

section \<open>Facts and claims about table mode\<close>

lemma findIndex_None: "findIndex p xs = None \<longleftrightarrow> (\<forall>x \<in> set xs. \<not> p x)"
  by (induction xs) auto

lemma findIndex_first:
  "\<forall>x \<in> set before. \<not> p x \<Longrightarrow> p x \<Longrightarrow>
     findIndex p (before @ x # after) = Some (length before)"
  by (induction before) auto

lemma split_on_not_empty: "split_on sep s \<noteq> []"
  by (induction s) (auto split: list.splits)

lemma extractKey_unparsed:
  "pathname_of imageUrl = None \<Longrightarrow> extractKey pathname_of imageUrl bucketName = imageUrl"
  by (simp add: extractKey_def)

lemma extractKey_no_bucket:
  "pathname_of imageUrl = Some pathname \<Longrightarrow> bucketName \<notin> set (split_on CHR ''/'' pathname) \<Longrightarrow>
     extractKey pathname_of imageUrl bucketName = last (split_on CHR ''/'' pathname)"
proof -
  assume a: "pathname_of imageUrl = Some pathname"
    and b: "bucketName \<notin> set (split_on CHR ''/'' pathname)"
  have "findIndex (\<lambda>part. part = bucketName) (split_on CHR ''/'' pathname) = None"
    using b by (auto simp: findIndex_None)
  then show ?thesis using a by (simp add: extractKey_def Let_def)
qed

lemma extractKey_bucket_inside:
  assumes "pathname_of imageUrl = Some pathname"
    and "split_on CHR ''/'' pathname = before @ bucketName # after"
    and "bucketName \<notin> set before"
    and "after \<noteq> []"
  shows "extractKey pathname_of imageUrl bucketName = join_with ''/'' after"
proof -
  have "findIndex (\<lambda>part. part = bucketName) (before @ bucketName # after)
          = Some (length before)"
    using assms(3) by (intro findIndex_first) auto
  then show ?thesis using assms by (simp add: extractKey_def Let_def)
qed

lemma extractKey_bucket_last:
  assumes "pathname_of imageUrl = Some pathname"
    and "split_on CHR ''/'' pathname = before @ [bucketName]"
    and "bucketName \<notin> set before"
  shows "extractKey pathname_of imageUrl bucketName = bucketName"
proof -
  have "findIndex (\<lambda>part. part = bucketName) (before @ bucketName # [])
          = Some (length before)"
    using assms(3) by (intro findIndex_first) auto
  then show ?thesis using assms by (simp add: extractKey_def Let_def)
qed

lemma example_row_key:
  "extractKey example_url_pathname
     ''https://proj.supabase.co/storage/v1/object/public/mybucket/images/a.png'' ''mybucket''
     = ''images/a.png''"
  by code_simp

lemma example_plain_key:
  "extractKey example_url_pathname ''images/a.png'' ''mybucket'' = ''images/a.png''"
  by code_simp

text \<open>
  C3, as stated, makes the key the join of all segments after the one that equals the
  bucket name. When that segment is the last one the join is empty, and the function
  returns the last segment instead, that is, the bucket name.
\<close>

theorem extractKey_bucket_last_segment:
  "example_url_pathname ''https://proj.supabase.co/storage/v1/object/public/mybucket''
     = Some ''/storage/v1/object/public/mybucket''
   \<and> extractKey_spec example_url_pathname
        ''https://proj.supabase.co/storage/v1/object/public/mybucket'' ''mybucket'' = []
   \<and> extractKey example_url_pathname
        ''https://proj.supabase.co/storage/v1/object/public/mybucket'' ''mybucket''
        = ''mybucket''"
  by code_simp

text \<open>
  C3, amended. The extraction is a total function of the stored string, the bucket name
  and the answer of the URL parser. When the string does not parse, the key is the string
  itself. When it parses and no segment of the path equals the bucket name, the key is the
  last segment. When the first segment that equals the bucket name has segments after it,
  the key is their join with slashes; when it is the last segment, the key is that last
  segment, the bucket name. For
  \<open>https://proj.supabase.co/storage/v1/object/public/mybucket/images/a.png\<close> and the
  bucket \<open>mybucket\<close> the key is \<open>images/a.png\<close>, and the string \<open>images/a.png\<close> is its
  own key.
\<close>

theorem extractKey_cases:
  "(pathname_of imageUrl = None \<longrightarrow> extractKey pathname_of imageUrl bucketName = imageUrl)
   \<and> (pathname_of imageUrl = Some pathname
        \<and> bucketName \<notin> set (split_on CHR ''/'' pathname) \<longrightarrow>
        extractKey pathname_of imageUrl bucketName = last (split_on CHR ''/'' pathname))
   \<and> (pathname_of imageUrl = Some pathname
        \<and> split_on CHR ''/'' pathname = before @ bucketName # after
        \<and> bucketName \<notin> set before \<and> after \<noteq> [] \<longrightarrow>
        extractKey pathname_of imageUrl bucketName = join_with ''/'' after)
   \<and> (pathname_of imageUrl = Some pathname
        \<and> split_on CHR ''/'' pathname = before @ [bucketName]
        \<and> bucketName \<notin> set before \<longrightarrow>
        extractKey pathname_of imageUrl bucketName = bucketName)
   \<and> extractKey example_url_pathname
        ''https://proj.supabase.co/storage/v1/object/public/mybucket/images/a.png'' ''mybucket''
        = ''images/a.png''
   \<and> extractKey example_url_pathname ''images/a.png'' ''mybucket'' = ''images/a.png''"
  using extractKey_unparsed [of pathname_of imageUrl bucketName]
    extractKey_no_bucket [of pathname_of imageUrl pathname bucketName]
    extractKey_bucket_inside [of pathname_of imageUrl pathname before bucketName after]
    extractKey_bucket_last [of pathname_of imageUrl pathname before bucketName]
    example_row_key example_plain_key
  by blast

lemma example_paths:
  "example_url_pathname ''images/a.png'' = None"
  "example_url_pathname ''https://proj.supabase.co/x/y.png'' = Some ''/x/y.png''"
  "split_on CHR ''/'' ''/x/y.png'' = [[], ''x'', ''y.png'']"
  "example_url_pathname ''https://proj.supabase.co/public/mybucket/images/a.png''
     = Some ''/public/mybucket/images/a.png''"
  "split_on CHR ''/'' ''/public/mybucket/images/a.png''
     = [[], ''public''] @ ''mybucket'' # [''images'', ''a.png'']"
  "example_url_pathname ''https://proj.supabase.co/public/mybucket'' = Some ''/public/mybucket''"
  "split_on CHR ''/'' ''/public/mybucket'' = [[], ''public''] @ [''mybucket'']"
  by code_simp+

theorem extractKey_cases_witness:
  "example_url_pathname ''images/a.png'' = None
   \<and> example_url_pathname ''https://proj.supabase.co/x/y.png'' = Some ''/x/y.png''
   \<and> ''mybucket'' \<notin> set (split_on CHR ''/'' ''/x/y.png'')
   \<and> extractKey example_url_pathname ''https://proj.supabase.co/x/y.png'' ''mybucket''
        = ''y.png''
   \<and> example_url_pathname ''https://proj.supabase.co/public/mybucket/images/a.png''
        = Some ''/public/mybucket/images/a.png''
   \<and> split_on CHR ''/'' ''/public/mybucket/images/a.png''
        = [[], ''public''] @ ''mybucket'' # [''images'', ''a.png'']
   \<and> extractKey example_url_pathname ''https://proj.supabase.co/public/mybucket/images/a.png''
        ''mybucket'' = ''images/a.png''
   \<and> example_url_pathname ''https://proj.supabase.co/public/mybucket'' = Some ''/public/mybucket''
   \<and> split_on CHR ''/'' ''/public/mybucket'' = [[], ''public''] @ [''mybucket'']
   \<and> extractKey example_url_pathname ''https://proj.supabase.co/public/mybucket'' ''mybucket''
        = ''mybucket''"
  using extractKey_cases [of example_url_pathname "''https://proj.supabase.co/x/y.png''"
      "''mybucket''" "''/x/y.png''" "[]" "[]"]
    extractKey_cases [of example_url_pathname
      "''https://proj.supabase.co/public/mybucket/images/a.png''" "''mybucket''"
      "''/public/mybucket/images/a.png''" "[[], ''public'']" "[''images'', ''a.png'']"]
    extractKey_cases [of example_url_pathname "''https://proj.supabase.co/public/mybucket''"
      "''mybucket''" "''/public/mybucket''" "[[], ''public'']" "[]"]
    example_paths
  by simp








end
